theory Spec2Isabelle
  imports Complex_Main "HOL-Library.Log_Nat"
begin

section \<open>Python helpers used by the federation code\<close>

text \<open>
  Strings are \<open>char list\<close>; Python's \<open>str\<close> is modelled on 8-bit characters.
  Exceptions are values of \<open>py_error\<close>; a function that can raise returns
  \<open>py_error + 'a\<close> with \<open>Inl\<close> for the raised exception.
\<close>

datatype py_error =
    ValueError
  | TypeError
  | AttributeError
  | IndexError
  | CryptoError
  | HTTPError
  | NetworkError
  | SizeLimitError
  | DurationLimitError
  | DBError

text \<open>\<open>xs[i]\<close> on a Python list: negative indices count from the end, out of range raises.\<close>

definition py_index :: "'a list \<Rightarrow> int \<Rightarrow> py_error + 'a" where
  "py_index xs i =
     (if 0 \<le> i \<and> i < int (length xs) then Inr (xs ! nat i)
      else if i < 0 \<and> - int (length xs) \<le> i then Inr (xs ! nat (int (length xs) + i))
      else Inl IndexError)"

text \<open>\<open>s.split(sep)\<close> for a one-character separator: always at least one piece.\<close>

fun split_on :: "char \<Rightarrow> string \<Rightarrow> string list" where
  "split_on sep [] = [[]]"
| "split_on sep (c # cs) =
     (if c = sep then [] # split_on sep cs
      else (case split_on sep cs of
              [] \<Rightarrow> [[c]]
            | p # ps \<Rightarrow> (c # p) # ps))"

text \<open>\<open>s.split(sep, 1)\<close>: at most one cut, at the first separator.\<close>

fun split_once :: "char \<Rightarrow> string \<Rightarrow> string list" where
  "split_once sep s =
     (if sep \<in> set s
      then [takeWhile (\<lambda>c. c \<noteq> sep) s, tl (dropWhile (\<lambda>c. c \<noteq> sep) s)]
      else [s])"

text \<open>The characters \<open>str.isspace\<close> accepts below code point 256.\<close>

definition is_space :: "char \<Rightarrow> bool" where
  "is_space c = (c \<in> set [CHR 0x09, CHR 0x0A, CHR 0x0B, CHR 0x0C, CHR 0x0D,
                           CHR 0x1C, CHR 0x1D, CHR 0x1E, CHR 0x1F, CHR 0x20,
                           CHR 0x85, CHR 0xA0])"

definition lstrip_chars :: "(char \<Rightarrow> bool) \<Rightarrow> string \<Rightarrow> string" where
  "lstrip_chars P s = dropWhile P s"

definition strip_chars :: "(char \<Rightarrow> bool) \<Rightarrow> string \<Rightarrow> string" where
  "strip_chars P s = rev (dropWhile P (rev (dropWhile P s)))"

text \<open>\<open>s.strip()\<close>\<close>

definition strip :: "string \<Rightarrow> string" where
  "strip s = strip_chars is_space s"

text \<open>\<open>s.split()\<close>: cut at runs of white space, no empty pieces.\<close>

fun split_ws_acc :: "string \<Rightarrow> string \<Rightarrow> string list" where
  "split_ws_acc cur [] = (if cur = [] then [] else [rev cur])"
| "split_ws_acc cur (c # cs) =
     (if is_space c
      then (if cur = [] then split_ws_acc [] cs else rev cur # split_ws_acc [] cs)
      else split_ws_acc (c # cur) cs)"

definition split_ws :: "string \<Rightarrow> string list" where
  "split_ws s = split_ws_acc [] s"

text \<open>\<open>sep.join(parts)\<close>\<close>

fun join :: "string \<Rightarrow> string list \<Rightarrow> string" where
  "join sep [] = []"
| "join sep [p] = p"
| "join sep (p # q # ps) = p @ sep @ join sep (q # ps)"

definition startswith :: "string \<Rightarrow> string \<Rightarrow> bool" where
  "startswith s p = (take (length p) s = p)"

definition endswith :: "string \<Rightarrow> string \<Rightarrow> bool" where
  "endswith s p = (length p \<le> length s \<and> drop (length s - length p) s = p)"

subsection \<open>\<open>int(s)\<close> on a string\<close>

text \<open>
  Python's \<open>int(s)\<close> in base 10, on strings of code points below 256. The
  conversion keeps every character below 127 and turns the Unicode spaces above it
  (0x85 and 0xA0) into blanks; the parser then strips the C white space (0x09 to 0x0D
  and 0x20), so the separators 0x1C to 0x1F, which \<open>str.strip\<close> removes, are not
  stripped here. After the white space comes one optional sign, then decimal digits in
  which single underscores may separate digits. More than \<open>int_max_str_digits\<close>
  digits (4300, the interpreter's default; leading zeros count, underscores do not)
  are refused. Anything else raises \<open>ValueError\<close> (here \<open>None\<close>).
\<close>

definition is_digit :: "char \<Rightarrow> bool" where
  "is_digit c = (c \<in> set ''0123456789'')"

definition digit_val :: "char \<Rightarrow> int" where
  "digit_val c = int (of_char c) - 48"

definition is_int_space :: "char \<Rightarrow> bool" where
  "is_int_space c = (c \<in> set [CHR 0x09, CHR 0x0A, CHR 0x0B, CHR 0x0C, CHR 0x0D,
                               CHR 0x20, CHR 0x85, CHR 0xA0])"

definition int_max_str_digits :: nat where
  "int_max_str_digits = 4300"

fun py_digits :: "int \<Rightarrow> string \<Rightarrow> int option" where
  "py_digits acc [] = Some acc"
| "py_digits acc (c # cs) =
     (if is_digit c then py_digits (10 * acc + digit_val c) cs
      else if c = CHR ''_'' then
        (case cs of
           [] \<Rightarrow> None
         | d # ds \<Rightarrow> if is_digit d then py_digits acc cs else None)
      else None)"

definition py_unsigned :: "string \<Rightarrow> int option" where
  "py_unsigned s =
     (case s of
        [] \<Rightarrow> None
      | d # ds \<Rightarrow>
          if \<not> is_digit d then None
          else if length (filter is_digit s) > int_max_str_digits then None
          else py_digits 0 s)"

definition py_int :: "string \<Rightarrow> int option" where
  "py_int s =
     (case strip_chars is_int_space s of
        [] \<Rightarrow> None
      | c # cs \<Rightarrow>
          if c = CHR ''-'' then map_option uminus (py_unsigned cs)
          else if c = CHR ''+'' then py_unsigned cs
          else py_unsigned (c # cs))"

subsection \<open>Double-precision arithmetic\<close>

text \<open>
  A finite double is \<open>m * 2^e\<close> for integers \<open>m\<close> and \<open>e\<close> with \<open>|m| < 2^53\<close>; here
  it is the pair \<open>(m, e)\<close>, and \<open>dval\<close> is its value. An operation computes the exact
  result and rounds it to 53 significant bits, a tie going to the even mantissa, as
  IEEE 754 binary64 does in its default rounding mode. The exponent range is not
  modelled: the values computed from the counters of Integer columns stay far inside
  it. \<open>float_0_1\<close> is the double that the literal \<open>0.1\<close> denotes.
\<close>

definition dval :: "int \<times> int \<Rightarrow> rat" where
  "dval x = of_int (fst x) * 2 powi (snd x)"

text \<open>\<open>a / 2^d\<close> rounded to the nearest integer, ties to even, for \<open>a \<ge> 0\<close>.\<close>

definition round_shift :: "int \<Rightarrow> nat \<Rightarrow> int" where
  "round_shift a d =
     (let q = a div 2 ^ d; r = a mod 2 ^ d
      in if 2 * r < 2 ^ d then q
         else if 2 * r > 2 ^ d then q + 1
         else if even q then q else q + 1)"

definition round53 :: "int \<times> int \<Rightarrow> int \<times> int" where
  "round53 x =
     (let d = bitlen \<bar>fst x\<bar> - 53
      in if d \<le> 0 then x
         else (sgn (fst x) * round_shift \<bar>fst x\<bar> (nat d), snd x + d))"

text \<open>\<open>float(n)\<close>, \<open>x * y\<close> and \<open>x + y\<close> on doubles.\<close>

definition float_of_int :: "int \<Rightarrow> int \<times> int" where
  "float_of_int n = round53 (n, 0)"

definition float_mul :: "int \<times> int \<Rightarrow> int \<times> int \<Rightarrow> int \<times> int" where
  "float_mul x y = round53 (fst x * fst y, snd x + snd y)"

definition float_add :: "int \<times> int \<Rightarrow> int \<times> int \<Rightarrow> int \<times> int" where
  "float_add x y =
     (let e = min (snd x) (snd y)
      in round53 (fst x * 2 ^ nat (snd x - e) + fst y * 2 ^ nat (snd y - e), e))"

definition float_0_1 :: "int \<times> int" where
  "float_0_1 = (3602879701896397, - 55)"

subsection \<open>JSON values\<close>

text \<open>
  A decoded JSON document. A dict is an association list read with \<open>map_of\<close>.
  Floating-point numbers do not occur in the fields the handlers read.
\<close>

datatype json =
    JNull
  | JBool bool
  | JInt int
  | JStr string
  | JList "json list"
  | JDict "(string \<times> json) list"

text \<open>Python truthiness of a decoded value (\<open>if not x\<close>).\<close>

fun truthy :: "json \<Rightarrow> bool" where
  "truthy JNull = False"
| "truthy (JBool b) = b"
| "truthy (JInt i) = (i \<noteq> 0)"
| "truthy (JStr s) = (s \<noteq> [])"
| "truthy (JList xs) = (xs \<noteq> [])"
| "truthy (JDict kvs) = (kvs \<noteq> [])"

text \<open>\<open>d.get(k)\<close> on a value that must be a dict; any other value has no \<open>get\<close>.\<close>

fun jget :: "json \<Rightarrow> string \<Rightarrow> py_error + json option" where
  "jget (JDict kvs) k = Inr (map_of kvs k)"
| "jget _ k = Inl AttributeError"

section \<open>Outbound delivery (OutboxHandler)\<close>

text \<open>Times are seconds on the UTC clock; \<open>timedelta(minutes=m)\<close> is \<open>60 * m\<close>.\<close>

type_synonym time = int

definition DELIVERY_RETRY_ATTEMPTS :: int where
  "DELIVERY_RETRY_ATTEMPTS = 5"

definition DELIVERY_RETRY_DELAYS_MIN :: "int list" where
  "DELIVERY_RETRY_DELAYS_MIN = [1, 5, 15, 60, 240]"

definition timedelta_minutes :: "int \<Rightarrow> int" where
  "timedelta_minutes m = 60 * m"

record delivery_record =
  dr_activity_id :: nat
  dr_inbox_url :: string
  dr_status :: string
  dr_attempts :: int
  dr_last_attempt_at :: "time option"
  dr_next_retry_at :: "time option"
  dr_error_message :: "string option"
  dr_created_at :: time

text \<open>\<open>create_delivery_tasks\<close>: one pending record per inbox, due at once.\<close>

definition new_delivery_record :: "nat \<Rightarrow> time \<Rightarrow> string \<Rightarrow> delivery_record" where
  "new_delivery_record aid now inbox =
     \<lparr> dr_activity_id = aid, dr_inbox_url = inbox, dr_status = ''pending'',
       dr_attempts = 0, dr_last_attempt_at = None, dr_next_retry_at = Some now,
       dr_error_message = None, dr_created_at = now \<rparr>"

definition create_delivery_tasks ::
  "delivery_record list \<Rightarrow> nat \<Rightarrow> time \<Rightarrow> string list \<Rightarrow> delivery_record list" where
  "create_delivery_tasks recs aid now inbox_urls =
     recs @ map (new_delivery_record aid now) inbox_urls"

text \<open>What the POST to the remote inbox did.\<close>

datatype http_outcome =
    Response nat string
  | Timeout string
  | OtherFailure string

function show_nat :: "nat \<Rightarrow> string" where
  "show_nat n =
     (if n < 10 then [char_of (48 + n)]
      else show_nat (n div 10) @ [char_of (48 + n mod 10)])"
  by pat_completeness auto
termination
  by (relation "measure id") auto

text \<open>\<open>deliver_activity\<close>: success flag and error message.\<close>

fun deliver_activity :: "http_outcome \<Rightarrow> bool \<times> string option" where
  "deliver_activity (Response code body) =
     (if 200 \<le> code \<and> code < 300 then (True, None)
      else if 400 \<le> code \<and> code < 500
        then (False, Some (''Client error '' @ show_nat code @ '': '' @ take 200 body))
      else (False, Some (''Server error '' @ show_nat code @ '': '' @ take 200 body)))"
| "deliver_activity (Timeout e) = (False, Some (''Timeout: '' @ e))"
| "deliver_activity (OtherFailure e) = (False, Some (''Error: '' @ e))"

text \<open>
  What \<open>process_delivery_record\<close> finds before it posts: whether the activity row
  exists, whether the user and the DID document exist, and whether \<open>sign_activity\<close>
  returned a header (\<open>None\<close>: it raised).
\<close>

record delivery_env =
  env_activity_found :: bool
  env_user_found :: bool
  env_signature :: "string option"
  env_outcome :: http_outcome

text \<open>
  \<open>process_delivery_record\<close> on one record. The record returned is the committed one;
  an exception rolls the session back, which leaves the record as it was.
  The two clock readings of one attempt are taken to be the same instant \<open>now\<close>.
\<close>

definition process_delivery_record ::
  "delivery_env \<Rightarrow> time \<Rightarrow> delivery_record \<Rightarrow> delivery_record \<times> bool" where
  "process_delivery_record env now r =
     (if \<not> env_activity_found env then
        (r\<lparr>dr_status := ''failed'', dr_error_message := Some ''Activity not found''\<rparr>, False)
      else if \<not> env_user_found env then
        (r\<lparr>dr_status := ''failed'', dr_error_message := Some ''User or DID not found''\<rparr>, False)
      else
        (case env_signature env of
           None \<Rightarrow> (r, False)
         | Some signature_header \<Rightarrow>
             (case deliver_activity (env_outcome env) of (success, error_msg) \<Rightarrow>
                (let r1 = r\<lparr>dr_attempts := dr_attempts r + 1, dr_last_attempt_at := Some now\<rparr>
                 in if success then
                      (r1\<lparr>dr_status := ''delivered'', dr_next_retry_at := None\<rparr>, True)
                    else
                      (let r2 = r1\<lparr>dr_error_message := error_msg\<rparr>
                       in if dr_attempts r2 \<ge> DELIVERY_RETRY_ATTEMPTS then
                            (r2\<lparr>dr_status := ''failed'', dr_next_retry_at := None\<rparr>, False)
                          else
                            (case py_index DELIVERY_RETRY_DELAYS_MIN (dr_attempts r2 - 1) of
                               Inl e \<Rightarrow> (r, False)
                             | Inr delay_minutes \<Rightarrow>
                                 (r2\<lparr>dr_next_retry_at :=
                                        Some (now + timedelta_minutes delay_minutes)\<rparr>,
                                  False)))))))"

text \<open>\<open>process_pending_deliveries\<close> selects the records that are due.\<close>

definition is_due :: "time \<Rightarrow> delivery_record \<Rightarrow> bool" where
  "is_due now r =
     (dr_status r = ''pending'' \<and>
      (case dr_next_retry_at r of None \<Rightarrow> False | Some t \<Rightarrow> t \<le> now))"

record delivery_stats =
  st_total :: nat
  st_delivered :: nat
  st_pending :: nat
  st_failed :: nat

definition count_status :: "string \<Rightarrow> delivery_record list \<Rightarrow> nat" where
  "count_status s records = length (filter (\<lambda>r. dr_status r = s) records)"

definition get_delivery_stats :: "delivery_record list \<Rightarrow> nat \<Rightarrow> delivery_stats" where
  "get_delivery_stats db aid =
     (let records = filter (\<lambda>r. dr_activity_id r = aid) db
      in \<lparr> st_total = length records,
           st_delivered = count_status ''delivered'' records,
           st_pending = count_status ''pending'' records,
           st_failed = count_status ''failed'' records \<rparr>)"

text \<open>
  One delivery attempt that reaches the POST: the activity row, the user and the DID
  document exist and signing returned a header. The attempt succeeds on a 2xx response
  and fails on anything else (another status code, a timeout, a network error).
\<close>

definition got_2xx :: "delivery_env \<Rightarrow> bool" where
  "got_2xx env =
     (case env_outcome env of
        Response code body \<Rightarrow> 200 \<le> code \<and> code < 300
      | Timeout e \<Rightarrow> False
      | OtherFailure e \<Rightarrow> False)"

definition attempt_fails :: "delivery_env \<Rightarrow> bool" where
  "attempt_fails env =
     (env_activity_found env \<and> env_user_found env \<and> env_signature env \<noteq> None \<and>
      \<not> got_2xx env)"

definition attempt_succeeds :: "delivery_env \<Rightarrow> bool" where
  "attempt_succeeds env =
     (env_activity_found env \<and> env_user_found env \<and> env_signature env \<noteq> None \<and>
      got_2xx env)"

definition attempt :: "delivery_env \<Rightarrow> time \<Rightarrow> delivery_record \<Rightarrow> delivery_record" where
  "attempt env now r = fst (process_delivery_record env now r)"

text \<open>Runs of the handler on the delivery table, starting from the empty table.\<close>

datatype outbox_op =
    CreateTasks nat time "string list"
  | ProcessRecord nat delivery_env time

fun outbox_step :: "delivery_record list \<Rightarrow> outbox_op \<Rightarrow> delivery_record list" where
  "outbox_step db (CreateTasks aid now inboxes) = create_delivery_tasks db aid now inboxes"
| "outbox_step db (ProcessRecord i env now) =
     (if i < length db then db[i := fst (process_delivery_record env now (db ! i))] else db)"

definition outbox_run :: "outbox_op list \<Rightarrow> delivery_record list" where
  "outbox_run ops = foldl outbox_step [] ops"

definition status_ok :: "delivery_record \<Rightarrow> bool" where
  "status_ok r =
     (dr_status r = ''pending'' \<or> dr_status r = ''delivered'' \<or> dr_status r = ''failed'')"

section \<open>HTTP signatures (ActivityPubService)\<close>

text \<open>
  The functions of the standard library and of the \<open>cryptography\<close> package that the
  service calls are parameters: \<open>json.dumps(sort_keys=True)\<close>, SHA-256, base64,
  loading of PEM keys (\<open>None\<close>: the loader raises), and RSA signing and verification
  with PKCS1v15 padding and SHA-256 (\<open>rsa_verify\<close> is \<open>False\<close> where the library
  raises \<open>InvalidSignature\<close>).
\<close>

record ('sk, 'pk) crypto_lib =
  json_dumps :: "json \<Rightarrow> string"
  sha256_digest :: "string \<Rightarrow> string"
  b64encode :: "string \<Rightarrow> string"
  b64decode :: "string \<Rightarrow> string option"
  load_pem_private_key :: "string \<Rightarrow> 'sk option"
  load_pem_public_key :: "string \<Rightarrow> 'pk option"
  rsa_sign :: "'sk \<Rightarrow> string \<Rightarrow> string"
  rsa_verify :: "'pk \<Rightarrow> string \<Rightarrow> string \<Rightarrow> bool"

definition dquote :: char where
  "dquote = CHR 0x22"

definition newline :: string where
  "newline = [CHR 0x0A]"

text \<open>The signing string \<open>sign_activity\<close> builds.\<close>

definition signer_string :: "string \<Rightarrow> string \<Rightarrow> string \<Rightarrow> string" where
  "signer_string netloc date digest_b64 =
     ''(request-target): post /inbox'' @ newline @ ''host: '' @ netloc @ newline @
     ''date: '' @ date @ newline @ ''digest: SHA-256='' @ digest_b64"

definition signature_header_of :: "string \<Rightarrow> string \<Rightarrow> string" where
  "signature_header_of key_id signature_b64 =
     ''keyId='' @ [dquote] @ key_id @ [dquote] @ '','' @
     ''algorithm='' @ [dquote] @ ''rsa-sha256'' @ [dquote] @ '','' @
     ''headers='' @ [dquote] @ ''(request-target) host date digest'' @ [dquote] @ '','' @
     ''signature='' @ [dquote] @ signature_b64 @ [dquote]"

text \<open>
  \<open>sign_activity\<close>; \<open>netloc\<close> is the host of the instance URL and \<open>date\<close> the
  formatted clock reading. An exception is logged and raised again.
\<close>

definition sign_activity ::
  "('sk, 'pk) crypto_lib \<Rightarrow> string \<Rightarrow> string \<Rightarrow> json \<Rightarrow> string \<Rightarrow> string
     \<Rightarrow> py_error + string" where
  "sign_activity lib netloc date activity private_key_pem key_id =
     (let activity_json = json_dumps lib activity;
          digest_b64 = b64encode lib (sha256_digest lib activity_json)
      in case load_pem_private_key lib private_key_pem of
           None \<Rightarrow> Inl CryptoError
         | Some private_key \<Rightarrow>
             (let signature_string = signer_string netloc date digest_b64;
                  signature_b64 = b64encode lib (rsa_sign lib private_key signature_string)
              in Inr (signature_header_of key_id signature_b64)))"

text \<open>
  The parsing loop of \<open>verify_signature\<close>: each comma-separated part is cut at its first
  \<open>=\<close>; a part without one fails to unpack (\<open>ValueError\<close>). A later key replaces an
  earlier one, so the newest binding is put in front.
\<close>

fun parse_sig_parts :: "(string \<times> string) list \<Rightarrow> string list \<Rightarrow> py_error + (string \<times> string) list" where
  "parse_sig_parts sig_parts [] = Inr sig_parts"
| "parse_sig_parts sig_parts (part # rest) =
     (case split_once CHR ''='' part of
        [key, val] \<Rightarrow>
          parse_sig_parts ((strip key, strip_chars (\<lambda>c. c = dquote) val) # sig_parts) rest
      | _ \<Rightarrow> Inl ValueError)"

definition parse_signature_header :: "string \<Rightarrow> py_error + (string \<times> string) list" where
  "parse_signature_header signature_header =
     parse_sig_parts [] (split_on CHR '','' signature_header)"

text \<open>One line of the reconstructed signing string per known header name.\<close>

definition signature_line ::
  "string \<Rightarrow> string \<Rightarrow> string \<Rightarrow> string \<Rightarrow> string \<Rightarrow> string list" where
  "signature_line request_target host date digest header =
     (if header = ''(request-target)'' then [''(request-target): '' @ request_target]
      else if header = ''host'' then [''host: '' @ host]
      else if header = ''date'' then [''date: '' @ date]
      else if header = ''digest'' then [''digest: '' @ digest]
      else [])"

definition reconstruct_signing_string ::
  "(string \<times> string) list \<Rightarrow> string \<Rightarrow> string \<Rightarrow> string \<Rightarrow> string \<Rightarrow> string" where
  "reconstruct_signing_string sig_parts request_target host date digest =
     (let headers = split_ws (case map_of sig_parts ''headers'' of None \<Rightarrow> [] | Some h \<Rightarrow> h)
      in join newline (concat (map (signature_line request_target host date digest) headers)))"

text \<open>The body of \<open>verify_signature\<close> inside its outer \<open>try\<close>.\<close>

definition verify_signature_body ::
  "('sk, 'pk) crypto_lib \<Rightarrow> string \<Rightarrow> string \<Rightarrow> string \<Rightarrow> string \<Rightarrow> string \<Rightarrow> string
     \<Rightarrow> py_error + bool" where
  "verify_signature_body lib signature_header request_target host date digest public_key_pem =
     (case parse_signature_header signature_header of
        Inl e \<Rightarrow> Inl e
      | Inr sig_parts \<Rightarrow>
          (case map_of sig_parts ''signature'' of
             None \<Rightarrow> Inr False
           | Some signature_b64 \<Rightarrow>
               if signature_b64 = [] then Inr False
               else
                 (case b64decode lib signature_b64 of
                    None \<Rightarrow> Inl ValueError
                  | Some signature \<Rightarrow>
                      (let signature_string =
                             reconstruct_signing_string sig_parts request_target host date digest
                       in case load_pem_public_key lib public_key_pem of
                            None \<Rightarrow> Inl CryptoError
                          | Some public_key \<Rightarrow>
                              Inr (rsa_verify lib public_key signature signature_string)))))"

text \<open>\<open>verify_signature\<close>: the outer handler turns every exception into \<open>False\<close>.\<close>

definition verify_signature ::
  "('sk, 'pk) crypto_lib \<Rightarrow> string \<Rightarrow> string \<Rightarrow> string \<Rightarrow> string \<Rightarrow> string \<Rightarrow> string
     \<Rightarrow> bool" where
  "verify_signature lib signature_header request_target host date digest public_key_pem =
     (case verify_signature_body lib signature_header request_target host date digest
             public_key_pem of
        Inl e \<Rightarrow> False
      | Inr b \<Rightarrow> b)"

text \<open>\<open>parse_activity\<close>: the activity itself, or \<open>None\<close>.\<close>

definition valid_types :: "string list" where
  "valid_types = [''Create'', ''Like'', ''Announce'', ''Delete'', ''Move'', ''Follow'',
                  ''Accept'', ''Reject'']"

definition parse_activity :: "json \<Rightarrow> json option" where
  "parse_activity activity_json =
     (case activity_json of
        JDict kvs \<Rightarrow>
          (if map_of kvs ''@context'' = None \<or> map_of kvs ''type'' = None
              \<or> map_of kvs ''actor'' = None then None
           else (case map_of kvs ''type'' of
                   Some (JStr t) \<Rightarrow> if t \<in> set valid_types then Some activity_json else None
                 | _ \<Rightarrow> None))
      | _ \<Rightarrow> None)"

text \<open>\<open>validate_activity_schema\<close>\<close>

definition is_jstr :: "json \<Rightarrow> bool" where
  "is_jstr j = (case j of JStr s \<Rightarrow> True | _ \<Rightarrow> False)"

definition validate_activity_schema :: "json \<Rightarrow> bool" where
  "validate_activity_schema activity =
     (case activity of
        JDict kvs \<Rightarrow>
          (let activity_type = map_of kvs ''type''
           in if activity_type \<in> {Some (JStr ''Create''), Some (JStr ''Update''),
                                    Some (JStr ''Delete'')}
                 \<and> map_of kvs ''object'' = None then False
              else if activity_type = Some (JStr ''Follow'') \<and> map_of kvs ''object'' = None
                then False
              else (case map_of kvs ''actor'' of
                      None \<Rightarrow> False
                    | Some actor \<Rightarrow>
                        if \<not> truthy actor \<or> \<not> is_jstr actor then False
                        else (case map_of kvs ''id'' of
                                None \<Rightarrow> True
                              | Some activity_id \<Rightarrow>
                                  \<not> (truthy activity_id \<and> \<not> is_jstr activity_id))))
      | _ \<Rightarrow> False)"

section \<open>Identity migration (IdentityService)\<close>

record did_document =
  dd_did :: string
  dd_public_key :: string
  dd_encrypted_private_key :: string

text \<open>
  \<open>verify_move_activity\<close>: looks the claimed actor up in the DID table. The
  \<open>signature\<close> argument is never read.
\<close>

definition verify_move_activity :: "did_document list \<Rightarrow> json \<Rightarrow> string \<Rightarrow> bool" where
  "verify_move_activity did_documents move_activity signature =
     (case jget move_activity ''actor'' of
        Inl e \<Rightarrow> False
      | Inr (Some (JStr actor_did)) \<Rightarrow>
          (case find (\<lambda>d. dd_did d = actor_did) did_documents of
             None \<Rightarrow> False
           | Some did_document \<Rightarrow> True)
      | Inr _ \<Rightarrow> False)"

section \<open>Inbound processing (InboxHandler)\<close>

text \<open>
  The tables the handlers read and write, with the columns they use. Counters are
  integers; the engagement score, a Float column, holds the rational value of the
  double that was stored. Column length limits and foreign keys are not modelled;
  the unique constraints on \<open>Activity.activity_id\<close> and on
  \<open>(Follower.user_id, Follower.follower_actor)\<close> are.
\<close>

record video_post =
  vp_id :: nat
  vp_title :: string
  vp_description :: string
  vp_tags :: "string list"
  vp_duration :: "int option"
  vp_status :: string
  vp_original_file_path :: "string option"
  vp_thumbnail_small :: "string option"
  vp_thumbnail_medium :: "string option"
  vp_thumbnail_large :: "string option"
  vp_resolutions :: "(string \<times> string) list"
  vp_is_federated :: bool
  vp_origin_actor_did :: "string option"
  vp_activitypub_id :: "string option"
  vp_view_count :: int
  vp_like_count :: int
  vp_comment_count :: int
  vp_share_count :: int
  vp_engagement_score :: rat
  vp_moderation_status :: string

record activity_row =
  ar_activity_id :: string
  ar_content :: json
  ar_is_local :: bool

record comment_row =
  cm_video_post_id :: nat
  cm_content :: string
  cm_is_federated :: bool
  cm_activitypub_id :: "string option"

record follower_row =
  fr_user_id :: nat
  fr_follower_actor :: string
  fr_follower_inbox :: string

text \<open>
  The state a request can change: the tables, the files on disk, the task queue, and
  a count of the media downloads started.
\<close>

record world =
  w_videos :: "video_post list"
  w_activities :: "activity_row list"
  w_comments :: "comment_row list"
  w_followers :: "follower_row list"
  w_files :: "string \<Rightarrow> string option"
  w_queue :: "(string \<times> nat \<times> string) list"
  w_downloads :: nat

record response =
  rs_status :: nat
  rs_message :: string

text \<open>What the remote server does on the streamed GET of the media file.\<close>

record http_download =
  dl_connected :: bool
  dl_status_ok :: bool
  dl_content_length :: "string option"
  dl_chunks :: "string list"
  dl_broken :: bool

text \<open>
  What one inbound request meets outside the process: the public key fetched from the
  actor document (\<open>None\<close>: the fetch failed or the document has no key), the
  remote's answer to the media download, and the time-stamped path of the download.
\<close>

record request_env =
  rq_fetched_key :: "string option"
  rq_download :: http_download
  rq_file_path :: string

subsection \<open>Queries\<close>

text \<open>
  \<open>query(...).filter(column == value).first()\<close> with a decoded JSON value: a string
  is compared, \<open>None\<close> becomes \<open>IS NULL\<close>, any other value is refused by the
  database driver.
\<close>

definition query_video :: "video_post list \<Rightarrow> json option \<Rightarrow> py_error + video_post option" where
  "query_video videos key =
     (case key of
        None \<Rightarrow> Inr (find (\<lambda>v. vp_activitypub_id v = None) videos)
      | Some JNull \<Rightarrow> Inr (find (\<lambda>v. vp_activitypub_id v = None) videos)
      | Some (JStr s) \<Rightarrow> Inr (find (\<lambda>v. vp_activitypub_id v = Some s) videos)
      | Some _ \<Rightarrow> Inl DBError)"

definition query_activity :: "activity_row list \<Rightarrow> json option \<Rightarrow> py_error + activity_row option" where
  "query_activity rows key =
     (case key of
        None \<Rightarrow> Inr None
      | Some JNull \<Rightarrow> Inr None
      | Some (JStr s) \<Rightarrow> Inr (find (\<lambda>a. ar_activity_id a = s) rows)
      | Some _ \<Rightarrow> Inl DBError)"

definition query_comment :: "comment_row list \<Rightarrow> json option \<Rightarrow> py_error + comment_row option" where
  "query_comment rows key =
     (case key of
        None \<Rightarrow> Inr (find (\<lambda>c. cm_activitypub_id c = None) rows)
      | Some JNull \<Rightarrow> Inr (find (\<lambda>c. cm_activitypub_id c = None) rows)
      | Some (JStr s) \<Rightarrow> Inr (find (\<lambda>c. cm_activitypub_id c = Some s) rows)
      | Some _ \<Rightarrow> Inl DBError)"

definition update_video :: "video_post \<Rightarrow> video_post list \<Rightarrow> video_post list" where
  "update_video v' videos = map (\<lambda>v. if vp_id v = vp_id v' then v' else v) videos"

definition next_video_id :: "video_post list \<Rightarrow> nat" where
  "next_video_id videos = Suc (fold max (map vp_id videos) 0)"

subsection \<open>\<open>store_activity\<close>\<close>

text \<open>
  The object id and type are read with \<open>activity.get("object", {}).get(...)\<close>, which
  raises when the object is not a dict. Any exception, and a duplicate
  \<open>activity_id\<close> at commit, rolls back and stores nothing.
\<close>

definition object_field :: "json \<Rightarrow> string \<Rightarrow> py_error + json option" where
  "object_field activity k =
     (case jget activity ''object'' of
        Inl e \<Rightarrow> Inl e
      | Inr None \<Rightarrow> Inr None
      | Inr (Some obj) \<Rightarrow> jget obj k)"

definition store_activity :: "world \<Rightarrow> json \<Rightarrow> bool \<Rightarrow> world" where
  "store_activity w activity is_local =
     (case object_field activity ''id'' of
        Inl e \<Rightarrow> w
      | Inr object_id \<Rightarrow>
          (case object_field activity ''type'' of
             Inl e \<Rightarrow> w
           | Inr object_type \<Rightarrow>
               (case jget activity ''id'' of
                  Inl e \<Rightarrow> w
                | Inr aid \<Rightarrow>
                    (case (case aid of None \<Rightarrow> Some (JStr []) | Some j \<Rightarrow> Some j) of
                       Some (JStr activity_id) \<Rightarrow>
                         if activity_id \<in> set (map ar_activity_id (w_activities w)) then w
                         else w\<lparr>w_activities := w_activities w @
                                  [\<lparr> ar_activity_id = activity_id, ar_content = activity,
                                     ar_is_local = is_local \<rparr>]\<rparr>
                     | _ \<Rightarrow> w))))"

subsection \<open>\<open>_parse_duration\<close>\<close>

text \<open>
  A falsy value gives \<open>None\<close>; a value without \<open>startswith\<close> raises inside the
  \<open>try\<close> and gives \<open>None\<close>; after the prefix \<open>PT\<close>, a rest ending in \<open>S\<close>
  goes through \<open>int\<close>.
\<close>

definition parse_duration :: "json \<Rightarrow> int option" where
  "parse_duration duration_str =
     (case duration_str of
        JStr s \<Rightarrow>
          if s = [] \<or> \<not> startswith s ''PT'' then None
          else (let rest = drop 2 s
                in if endswith rest ''S'' then py_int (butlast rest) else None)
      | _ \<Rightarrow> None)"

text \<open>The test \<open>duration and duration > 180\<close>.\<close>

definition exceeds_limit :: "int option \<Rightarrow> bool" where
  "exceeds_limit duration =
     (case duration of None \<Rightarrow> False | Some d \<Rightarrow> d \<noteq> 0 \<and> d > 180)"

subsection \<open>\<open>download_federated_video\<close>\<close>

definition max_size :: nat where
  "max_size = 500 * 1024 * 1024"

text \<open>
  The streaming loop: the bytes written so far and whether a chunk took the running
  total over the cap (that chunk is not written).
\<close>

fun stream_chunks :: "nat \<Rightarrow> string \<Rightarrow> string list \<Rightarrow> string \<times> bool" where
  "stream_chunks downloaded_size f [] = (f, False)"
| "stream_chunks downloaded_size f (chunk # rest) =
     (if downloaded_size + length chunk > max_size then (f, True)
      else stream_chunks (downloaded_size + length chunk) (f @ chunk) rest)"

definition check_content_length :: "string option \<Rightarrow> py_error + unit" where
  "check_content_length content_length =
     (case content_length of
        None \<Rightarrow> Inr ()
      | Some s \<Rightarrow>
          if s = [] then Inr ()
          else (case py_int s of
                  None \<Rightarrow> Inl ValueError
                | Some n \<Rightarrow> if n > int max_size then Inl SizeLimitError else Inr ()))"

text \<open>
  The result is the files afterwards, the number of bytes that were written to the
  download file, and the path or the exception raised. Every exception passes through
  the handler that removes the file at \<open>file_path\<close>.
\<close>

definition download_federated_video ::
  "(string \<Rightarrow> string option) \<Rightarrow> string \<Rightarrow> http_download \<Rightarrow> json
     \<Rightarrow> (string \<Rightarrow> string option) \<times> nat \<times> (py_error + string)" where
  "download_federated_video files file_path resp video_object =
     (if \<not> dl_connected resp then (files(file_path := None), 0, Inl NetworkError)
      else if \<not> dl_status_ok resp then (files(file_path := None), 0, Inl HTTPError)
      else
        (case check_content_length (dl_content_length resp) of
           Inl e \<Rightarrow> (files(file_path := None), 0, Inl e)
         | Inr u \<Rightarrow>
             (case stream_chunks 0 [] (dl_chunks resp) of (f, overrun) \<Rightarrow>
                if overrun then (files(file_path := None), length f, Inl SizeLimitError)
                else if dl_broken resp then (files(file_path := None), length f, Inl NetworkError)
                else
                  (case jget video_object ''duration'' of
                     Inl e \<Rightarrow> (files(file_path := None), length f, Inl e)
                   | Inr duration_str \<Rightarrow>
                       if (case duration_str of
                             None \<Rightarrow> False
                           | Some d \<Rightarrow> truthy d \<and> exceeds_limit (parse_duration d))
                       then (files(file_path := None), length f, Inl DurationLimitError)
                       else (files(file_path := Some f), length f, Inr file_path)))))"

subsection \<open>\<open>_process_federated_video\<close>\<close>

text \<open>\<open>value[:n]\<close>: strings and lists can be sliced, other values raise.\<close>

definition slice_to :: "nat \<Rightarrow> json \<Rightarrow> py_error + json" where
  "slice_to n j =
     (case j of
        JStr s \<Rightarrow> Inr (JStr (take n s))
      | JList xs \<Rightarrow> Inr (JList (take n xs))
      | _ \<Rightarrow> Inl TypeError)"

text \<open>
  The tag loop. Iterating a string or a dict yields strings, which have no \<open>get\<close>;
  iterating \<open>None\<close>, a number or a boolean raises at once.
\<close>

fun tag_names :: "json list \<Rightarrow> py_error + string list" where
  "tag_names [] = Inr []"
| "tag_names (tag # rest) =
     (case jget tag ''type'' of
        Inl e \<Rightarrow> Inl e
      | Inr ty \<Rightarrow>
          if ty = Some (JStr ''Hashtag'') then
            (case (case map_of (case tag of JDict kvs \<Rightarrow> kvs | _ \<Rightarrow> []) ''name'' of
                     None \<Rightarrow> JStr []
                   | Some n \<Rightarrow> n) of
               JStr name \<Rightarrow>
                 (let tag_name = lstrip_chars (\<lambda>c. c = CHR ''#'') name
                  in case tag_names rest of
                       Inl e \<Rightarrow> Inl e
                     | Inr tags \<Rightarrow> Inr (if tag_name \<noteq> [] then tag_name # tags else tags))
             | _ \<Rightarrow> Inl AttributeError)
          else tag_names rest)"

definition extract_tags :: "json option \<Rightarrow> py_error + string list" where
  "extract_tags tag_value =
     (case tag_value of
        None \<Rightarrow> Inr []
      | Some (JList xs) \<Rightarrow> map_sum id (take 10) (tag_names xs)
      | Some (JStr s) \<Rightarrow> if s = [] then Inr [] else Inl AttributeError
      | Some (JDict kvs) \<Rightarrow> if kvs = [] then Inr [] else Inl AttributeError
      | Some _ \<Rightarrow> Inl TypeError)"

record video_metadata =
  md_title :: json
  md_description :: json
  md_duration :: "int option"
  md_tags :: "string list"

text \<open>The metadata read between the existence check and the duration check.\<close>

definition extract_metadata :: "(string \<times> json) list \<Rightarrow> py_error + video_metadata" where
  "extract_metadata video_obj =
     (case slice_to 200 (case map_of video_obj ''name'' of
                           None \<Rightarrow> JStr ''Untitled'' | Some n \<Rightarrow> n) of
        Inl e \<Rightarrow> Inl e
      | Inr title \<Rightarrow>
          (case slice_to 2000 (case map_of video_obj ''content'' of
                                 None \<Rightarrow> JStr [] | Some c \<Rightarrow> c) of
             Inl e \<Rightarrow> Inl e
           | Inr description \<Rightarrow>
               (let duration = parse_duration (case map_of video_obj ''duration'' of
                                                 None \<Rightarrow> JStr [] | Some d \<Rightarrow> d)
                in case extract_tags (map_of video_obj ''tag'') of
                     Inl e \<Rightarrow> Inl e
                   | Inr tags \<Rightarrow>
                       Inr \<lparr> md_title = title, md_description = description,
                             md_duration = duration, md_tags = tags \<rparr>)))"

definition mk_response :: "nat \<Rightarrow> string \<Rightarrow> response" where
  "mk_response st msg = \<lparr> rs_status = st, rs_message = msg \<rparr>"

text \<open>
  Creating the row: the title and the description must be strings for the insert to
  succeed, and the actor is stored as the origin.
\<close>

definition new_video_post ::
  "nat \<Rightarrow> video_metadata \<Rightarrow> string \<Rightarrow> json option \<Rightarrow> json option \<Rightarrow> py_error + video_post" where
  "new_video_post new_id md file_path actor video_id =
     (case (md_title md, md_description md) of
        (JStr title, JStr description) \<Rightarrow>
          (case (case video_id of None \<Rightarrow> Some None | Some JNull \<Rightarrow> Some None
                 | Some (JStr s) \<Rightarrow> Some (Some s) | Some _ \<Rightarrow> None) of
             None \<Rightarrow> Inl DBError
           | Some apid \<Rightarrow>
               (case (case actor of None \<Rightarrow> Some None | Some JNull \<Rightarrow> Some None
                      | Some (JStr s) \<Rightarrow> Some (Some s) | Some _ \<Rightarrow> None) of
                  None \<Rightarrow> Inl DBError
                | Some origin \<Rightarrow>
                    Inr \<lparr> vp_id = new_id, vp_title = title, vp_description = description,
                          vp_tags = md_tags md, vp_duration = md_duration md,
                          vp_status = ''processing'', vp_original_file_path = Some file_path,
                          vp_thumbnail_small = None, vp_thumbnail_medium = None,
                          vp_thumbnail_large = None, vp_resolutions = [],
                          vp_is_federated = True, vp_origin_actor_did = origin,
                          vp_activitypub_id = apid, vp_view_count = 0, vp_like_count = 0,
                          vp_comment_count = 0, vp_share_count = 0, vp_engagement_score = 0,
                          vp_moderation_status = ''pending'' \<rparr>))
      | _ \<Rightarrow> Inl DBError)"

text \<open>
  \<open>_process_federated_video\<close>. \<open>_send_reject_activity\<close> only fetches the actor
  document and writes a log line, so it leaves the state alone. The outer handler
  answers 500 to any exception; what was written before the exception stays.
\<close>

definition process_federated_video ::
  "world \<Rightarrow> request_env \<Rightarrow> json \<Rightarrow> (string \<times> json) list \<Rightarrow> world \<times> response" where
  "process_federated_video w env activity video_obj =
     (let failed = mk_response 500 ''Failed to process video''
      in case jget activity ''actor'' of
           Inl e \<Rightarrow> (w, failed)
         | Inr actor \<Rightarrow>
             (case query_video (w_videos w) (map_of video_obj ''id'') of
                Inl e \<Rightarrow> (w, failed)
              | Inr (Some existing) \<Rightarrow> (w, mk_response 200 ''Video already processed'')
              | Inr None \<Rightarrow>
                  (case extract_metadata video_obj of
                     Inl e \<Rightarrow> (w, failed)
                   | Inr md \<Rightarrow>
                       if exceeds_limit (md_duration md)
                       then (w, mk_response 400 ''Duration exceeds limit'')
                       else
                         (case download_federated_video (w_files w) (rq_file_path env)
                                 (rq_download env) (JDict video_obj) of
                            (files', written, res) \<Rightarrow>
                              (let w1 = w\<lparr>w_files := files', w_downloads := Suc (w_downloads w)\<rparr>
                               in case res of
                                    Inl e \<Rightarrow> (w1, mk_response 500 ''Failed to download video'')
                                  | Inr file_path \<Rightarrow>
                                      (case new_video_post (next_video_id (w_videos w)) md
                                              file_path actor (map_of video_obj ''id'') of
                                         Inl e \<Rightarrow> (w1, failed)
                                       | Inr video_post \<Rightarrow>
                                           (w1\<lparr>w_videos := w_videos w @ [video_post],
                                               w_queue := w_queue w @
                                                 [(''transcode_video'', vp_id video_post,
                                                   file_path)]\<rparr>,
                                            mk_response 202
                                              ''Video accepted for processing'')))))))"

subsection \<open>\<open>_process_federated_comment\<close>\<close>

definition process_federated_comment ::
  "world \<Rightarrow> json \<Rightarrow> (string \<times> json) list \<Rightarrow> world \<times> response" where
  "process_federated_comment w activity note_obj =
     (let failed = mk_response 500 ''Failed to process comment''
      in case jget activity ''actor'' of
           Inl e \<Rightarrow> (w, failed)
         | Inr actor \<Rightarrow>
             (case map_of note_obj ''inReplyTo'' of
                None \<Rightarrow> (w, mk_response 400 ''Note must be in reply to a video'')
              | Some in_reply_to \<Rightarrow>
                  if \<not> truthy in_reply_to
                  then (w, mk_response 400 ''Note must be in reply to a video'')
                  else
                    (case query_video (w_videos w) (Some in_reply_to) of
                       Inl e \<Rightarrow> (w, failed)
                     | Inr None \<Rightarrow> (w, mk_response 404 ''Video not found'')
                     | Inr (Some video_post) \<Rightarrow>
                         (case query_comment (w_comments w) (map_of note_obj ''id'') of
                            Inl e \<Rightarrow> (w, failed)
                          | Inr (Some existing) \<Rightarrow>
                              (w, mk_response 200 ''Comment already processed'')
                          | Inr None \<Rightarrow>
                              (case slice_to 2000 (case map_of note_obj ''content'' of
                                                     None \<Rightarrow> JStr [] | Some c \<Rightarrow> c) of
                                 Inr (JStr content) \<Rightarrow>
                                   (w\<lparr>w_comments := w_comments w @
                                         [\<lparr> cm_video_post_id = vp_id video_post,
                                            cm_content = content, cm_is_federated = True,
                                            cm_activitypub_id =
                                              (case map_of note_obj ''id'' of
                                                 Some (JStr s) \<Rightarrow> Some s | _ \<Rightarrow> None) \<rparr>],
                                       w_videos := update_video
                                         (video_post\<lparr>vp_comment_count :=
                                            vp_comment_count video_post + 1\<rparr>) (w_videos w)\<rparr>,
                                    mk_response 200 ''Comment processed'')
                               | _ \<Rightarrow> (w, failed))))))"

subsection \<open>\<open>process_create_activity\<close>\<close>

text \<open>
  The messages for an unsupported object or activity type end, in the source, with the
  formatted type; the responses here carry the fixed part of the message.
\<close>

definition process_create_activity :: "world \<Rightarrow> request_env \<Rightarrow> json \<Rightarrow> world \<times> response" where
  "process_create_activity w env activity =
     (case jget activity ''object'' of
        Inl e \<Rightarrow> (w, mk_response 500 ''Failed to process Create activity'')
      | Inr obj_opt \<Rightarrow>
          (case (case obj_opt of None \<Rightarrow> JDict [] | Some obj \<Rightarrow> obj) of
             JDict obj \<Rightarrow>
               if map_of obj ''type'' = Some (JStr ''Video'')
                 then process_federated_video w env activity obj
               else if map_of obj ''type'' = Some (JStr ''Note'')
                 then process_federated_comment w activity obj
               else (w, mk_response 400 ''Unsupported object type'')
           | _ \<Rightarrow> (w, mk_response 500 ''Failed to process Create activity'')))"

subsection \<open>\<open>process_like_activity\<close> and \<open>process_announce_activity\<close>\<close>

text \<open>\<open>object_id = activity.get("object")\<close>, replaced by its \<open>id\<close> when it is a dict.\<close>

definition target_object_id :: "json \<Rightarrow> py_error + json option" where
  "target_object_id activity =
     (case jget activity ''object'' of
        Inl e \<Rightarrow> Inl e
      | Inr (Some (JDict kvs)) \<Rightarrow> Inr (map_of kvs ''id'')
      | Inr object_id \<Rightarrow> Inr object_id)"

text \<open>\<open>activity.get("id")\<close>\<close>

definition activity_id_of :: "json \<Rightarrow> json option" where
  "activity_id_of activity = (case activity of JDict kvs \<Rightarrow> map_of kvs ''id'' | _ \<Rightarrow> None)"

text \<open>
  The expression \<open>like_count * 2 + comment_count * 3 + share_count * 4 +
  view_count * 0.1\<close>: the three integer products and their sum are exact, the sum is
  converted to a double, \<open>view_count\<close> is converted and multiplied by the double
  \<open>0.1\<close>, and the two doubles are added.
\<close>

definition engagement_d :: "int \<Rightarrow> int \<Rightarrow> int \<Rightarrow> int \<Rightarrow> rat" where
  "engagement_d l c s v =
     dval (float_add (float_of_int (l * 2 + c * 3 + s * 4))
                     (float_mul (float_of_int v) float_0_1))"

definition engagement :: "video_post \<Rightarrow> rat" where
  "engagement v =
     engagement_d (vp_like_count v) (vp_comment_count v) (vp_share_count v) (vp_view_count v)"

text \<open>The formula of the score over exact arithmetic, and the stored score equal to it.\<close>

definition exact_score :: "video_post \<Rightarrow> rat" where
  "exact_score v =
     2 * of_int (vp_like_count v) + 3 * of_int (vp_comment_count v)
       + 4 * of_int (vp_share_count v) + of_int (vp_view_count v) / 10"


text \<open>The stored score within a relative error of \<open>2^-51\<close> of the formula.\<close>

definition score_within_rounding :: "video_post \<Rightarrow> bool" where
  "score_within_rounding v =
     (\<bar>vp_engagement_score v - exact_score v\<bar> \<le> exact_score v / 2 ^ 51)"

text \<open>The four counters within the non-negative range of an Integer column.\<close>

definition counters_in_column_range :: "video_post \<Rightarrow> bool" where
  "counters_in_column_range v =
     (0 \<le> vp_like_count v \<and> vp_like_count v < 2 ^ 31 \<and>
      0 \<le> vp_comment_count v \<and> vp_comment_count v < 2 ^ 31 \<and>
      0 \<le> vp_share_count v \<and> vp_share_count v < 2 ^ 31 \<and>
      0 \<le> vp_view_count v \<and> vp_view_count v < 2 ^ 31)"

definition process_like_activity :: "world \<Rightarrow> json \<Rightarrow> world \<times> response" where
  "process_like_activity w activity =
     (let failed = mk_response 500 ''Failed to process Like''
      in case target_object_id activity of
           Inl e \<Rightarrow> (w, failed)
         | Inr object_id \<Rightarrow>
             (case query_video (w_videos w) object_id of
                Inl e \<Rightarrow> (w, failed)
              | Inr None \<Rightarrow> (w, mk_response 404 ''Video not found'')
              | Inr (Some video_post) \<Rightarrow>
                  (case query_activity (w_activities w) (activity_id_of activity) of
                     Inl e \<Rightarrow> (w, failed)
                   | Inr (Some existing) \<Rightarrow> (w, mk_response 200 ''Like already processed'')
                   | Inr None \<Rightarrow>
                       (let v1 = video_post\<lparr>vp_like_count := vp_like_count video_post + 1\<rparr>;
                            v2 = v1\<lparr>vp_engagement_score := engagement v1\<rparr>
                        in (w\<lparr>w_videos := update_video v2 (w_videos w)\<rparr>,
                            mk_response 200 ''Like processed'')))))"

definition process_announce_activity :: "world \<Rightarrow> json \<Rightarrow> world \<times> response" where
  "process_announce_activity w activity =
     (let failed = mk_response 500 ''Failed to process Announce''
      in case target_object_id activity of
           Inl e \<Rightarrow> (w, failed)
         | Inr object_id \<Rightarrow>
             (case query_video (w_videos w) object_id of
                Inl e \<Rightarrow> (w, failed)
              | Inr None \<Rightarrow> (w, mk_response 404 ''Video not found'')
              | Inr (Some video_post) \<Rightarrow>
                  (case query_activity (w_activities w) (activity_id_of activity) of
                     Inl e \<Rightarrow> (w, failed)
                   | Inr (Some existing) \<Rightarrow>
                       (w, mk_response 200 ''Announce already processed'')
                   | Inr None \<Rightarrow>
                       (let v1 = video_post\<lparr>vp_share_count := vp_share_count video_post + 1\<rparr>;
                            v2 = v1\<lparr>vp_engagement_score := engagement v1\<rparr>
                        in (w\<lparr>w_videos := update_video v2 (w_videos w)\<rparr>,
                            mk_response 200 ''Announce processed'')))))"

subsection \<open>\<open>process_delete_activity\<close> and \<open>process_move_activity\<close>\<close>

definition video_files :: "video_post \<Rightarrow> string list" where
  "video_files v =
     (case vp_original_file_path v of None \<Rightarrow> [] | Some p \<Rightarrow> [p]) @
     map snd (vp_resolutions v) @
     concat (map (\<lambda>t. case t of None \<Rightarrow> [] | Some p \<Rightarrow> [p])
               [vp_thumbnail_small v, vp_thumbnail_medium v, vp_thumbnail_large v])"

definition remove_files :: "string list \<Rightarrow> (string \<Rightarrow> string option) \<Rightarrow> (string \<Rightarrow> string option)" where
  "remove_files paths files = (\<lambda>p. if p \<in> set paths then None else files p)"

definition process_delete_activity :: "world \<Rightarrow> json \<Rightarrow> world \<times> response" where
  "process_delete_activity w activity =
     (let failed = mk_response 500 ''Failed to process Delete''
      in case target_object_id activity of
           Inl e \<Rightarrow> (w, failed)
         | Inr object_id \<Rightarrow>
             (case query_video (w_videos w) object_id of
                Inl e \<Rightarrow> (w, failed)
              | Inr None \<Rightarrow> (w, mk_response 404 ''Video not found'')
              | Inr (Some video_post) \<Rightarrow>
                  (w\<lparr>w_files := remove_files (video_files video_post) (w_files w),
                      w_videos := filter (\<lambda>v. vp_id v \<noteq> vp_id video_post) (w_videos w)\<rparr>,
                   mk_response 200 ''Video deleted'')))"

definition process_move_activity :: "world \<Rightarrow> json \<Rightarrow> world \<times> response" where
  "process_move_activity w activity =
     (let failed = mk_response 500 ''Failed to process Move''
      in case activity of
           JDict kvs \<Rightarrow>
             (case map_of kvs ''target'' of
                None \<Rightarrow> (w, mk_response 400 ''Missing target'')
              | Some target \<Rightarrow>
                  if \<not> truthy target then (w, mk_response 400 ''Missing target'')
                  else
                    (case map_of kvs ''actor'' of
                       Some (JStr actor) \<Rightarrow>
                         (case target of
                            JStr new_actor \<Rightarrow>
                              (let followers' =
                                     map (\<lambda>f. if fr_follower_actor f = actor
                                               then f\<lparr>fr_follower_actor := new_actor\<rparr> else f)
                                       (w_followers w)
                               in if distinct (map (\<lambda>f. (fr_user_id f, fr_follower_actor f))
                                                 followers')
                                  then (w\<lparr>w_followers := followers'\<rparr>,
                                        mk_response 200 ''Move processed'')
                                  else (w, failed))
                          | _ \<Rightarrow>
                              if list_ex (\<lambda>f. fr_follower_actor f = actor) (w_followers w)
                              then (w, failed)
                              else (w, mk_response 200 ''Move processed''))
                     | Some JNull \<Rightarrow> (w, mk_response 200 ''Move processed'')
                     | None \<Rightarrow> (w, mk_response 200 ''Move processed'')
                     | Some _ \<Rightarrow> (w, failed)))
         | _ \<Rightarrow> (w, failed))"

subsection \<open>\<open>handle_activity\<close>\<close>

text \<open>
  The pipeline of one inbound request. The activity is stored after its handler has
  run, whatever the handler answered.
\<close>

definition handle_activity ::
  "('sk, 'pk) crypto_lib \<Rightarrow> world \<Rightarrow> request_env \<Rightarrow> json \<Rightarrow> string \<Rightarrow> string \<Rightarrow> string
     \<Rightarrow> string \<Rightarrow> string \<Rightarrow> world \<times> response" where
  "handle_activity lib w env activity signature request_target host date digest =
     (case jget activity ''actor'' of
        Inl e \<Rightarrow> (w, mk_response 500 ''Internal server error'')
      | Inr actor_url \<Rightarrow>
          if \<not> (case actor_url of None \<Rightarrow> False | Some a \<Rightarrow> truthy a)
          then (w, mk_response 401 ''Missing actor'')
          else
            (case rq_fetched_key env of
               None \<Rightarrow> (w, mk_response 401 ''Could not verify signature'')
             | Some public_key \<Rightarrow>
                 if public_key = [] then (w, mk_response 401 ''Could not verify signature'')
                 else if \<not> verify_signature lib signature request_target host date digest
                            public_key
                 then (w, mk_response 401 ''Invalid signature'')
                 else
                   (case parse_activity activity of
                      None \<Rightarrow> (w, mk_response 400 ''Invalid activity format'')
                    | Some parsed_activity \<Rightarrow>
                        if \<not> validate_activity_schema parsed_activity
                        then (w, mk_response 400 ''Invalid activity schema'')
                        else
                          (let activity_type = (case parsed_activity of
                                                  JDict kvs \<Rightarrow> map_of kvs ''type''
                                                | _ \<Rightarrow> None);
                               routed =
                                 (if activity_type = Some (JStr ''Create'')
                                    then Some (process_create_activity w env parsed_activity)
                                  else if activity_type = Some (JStr ''Like'')
                                    then Some (process_like_activity w parsed_activity)
                                  else if activity_type = Some (JStr ''Announce'')
                                    then Some (process_announce_activity w parsed_activity)
                                  else if activity_type = Some (JStr ''Delete'')
                                    then Some (process_delete_activity w parsed_activity)
                                  else if activity_type = Some (JStr ''Move'')
                                    then Some (process_move_activity w parsed_activity)
                                  else None)
                           in case routed of
                                None \<Rightarrow> (w, mk_response 400 ''Unsupported activity type'')
                              | Some (w', result) \<Rightarrow>
                                  (store_activity w' parsed_activity False, result)))))"

text \<open>Sample inputs.\<close>

text \<open>
  The conditions under which \<open>_process_federated_video\<close> gets as far as the
  download: the activity is a dict, no video with the object's id exists, the metadata
  is read without an exception and the parsed duration is within the limit.
\<close>

definition reaches_download :: "world \<Rightarrow> json \<Rightarrow> (string \<times> json) list \<Rightarrow> bool" where
  "reaches_download w activity video_obj =
     (case jget activity ''actor'' of
        Inl e \<Rightarrow> False
      | Inr actor \<Rightarrow>
          (case query_video (w_videos w) (map_of video_obj ''id'') of
             Inr None \<Rightarrow>
               (case extract_metadata video_obj of
                  Inl e \<Rightarrow> False
                | Inr md \<Rightarrow> \<not> exceeds_limit (md_duration md))
           | _ \<Rightarrow> False))"

text \<open>\<open>video_obj.get("duration", "")\<close>\<close>

definition declared_duration :: "(string \<times> json) list \<Rightarrow> json" where
  "declared_duration video_obj =
     (case map_of video_obj ''duration'' of None \<Rightarrow> JStr [] | Some d \<Rightarrow> d)"

text \<open>The form \<open>PT<digits>S\<close>: the prefix, at least one decimal digit, the suffix.\<close>

definition exact_PT_digits_S :: "string \<Rightarrow> bool" where
  "exact_PT_digits_S s =
     (startswith s ''PT'' \<and> endswith (drop 2 s) ''S'' \<and>
      butlast (drop 2 s) \<noteq> [] \<and> list_all is_digit (butlast (drop 2 s)))"

text \<open>
  A stand-in for the external library, to run the definitions on concrete inputs:
  base64 is the identity on strings without \<open>!\<close>, a PEM string is its own key,
  the private and the public key of a pair are the same string, and a signature is
  the key followed by the signed message.
\<close>

definition toy_lib :: "(string, string) crypto_lib" where
  "toy_lib = \<lparr> json_dumps = (\<lambda>j. ''{}''), sha256_digest = (\<lambda>s. ''h'' @ s),
     b64encode = (\<lambda>s. s), b64decode = (\<lambda>s. if CHR ''!'' \<in> set s then None else Some s),
     load_pem_private_key = (\<lambda>s. if s = [] then None else Some s),
     load_pem_public_key = (\<lambda>s. if s = [] then None else Some s),
     rsa_sign = (\<lambda>sk m. sk @ '':'' @ m),
     rsa_verify = (\<lambda>pk sg m. sg = pk @ '':'' @ m) \<rparr>"

definition toy_date :: string where
  "toy_date = ''Tue 03 Nov 2026 19:21:00 GMT''"

definition good_header :: string where
  "good_header = signature_header_of ''https://remote.example/users/bob#main-key''
     (''PEM:'' @ signer_string ''local.example'' toy_date ''abc'')"


text \<open>A key id built from the user name \<open>a,b\<close>.\<close>

definition bad_key_id :: string where
  "bad_key_id = ''https://social.example/users/a,b#main-key''"

definition sample_dids :: "did_document list" where
  "sample_dids = [\<lparr> dd_did = ''did:key:z6MkAlice'', dd_public_key = ''PUB'',
                    dd_encrypted_private_key = ''ENC'' \<rparr>]"

definition sample_move :: json where
  "sample_move = JDict [(''type'', JStr ''Move''), (''actor'', JStr ''did:key:z6MkAlice''),
      (''object'', JStr ''did:key:z6MkAlice''),
      (''target'', JStr ''https://evil.example/users/mallory'')]"

definition sample_video :: video_post where
  "sample_video = \<lparr> vp_id = 1, vp_title = ''Cats'', vp_description = '''', vp_tags = [],
     vp_duration = Some 30, vp_status = ''ready'', vp_original_file_path = Some ''uploads/1.mp4'',
     vp_thumbnail_small = None, vp_thumbnail_medium = None, vp_thumbnail_large = None,
     vp_resolutions = [], vp_is_federated = False, vp_origin_actor_did = None,
     vp_activitypub_id = Some ''https://local.example/videos/1'',
     vp_view_count = 3, vp_like_count = 0, vp_comment_count = 1, vp_share_count = 0,
     vp_engagement_score = 3715469692580659 / 1125899906842624, vp_moderation_status = ''approved'' \<rparr>"

definition sample_world :: world where
  "sample_world = \<lparr> w_videos = [sample_video], w_activities = [], w_comments = [],
     w_followers = [], w_files = (\<lambda>p. None), w_queue = [], w_downloads = 0 \<rparr>"

text \<open>A Like whose object is the bare URL of the video.\<close>

definition like_activity :: json where
  "like_activity = JDict [(''@context'', JStr ''https://www.w3.org/ns/activitystreams''),
     (''id'', JStr ''https://remote.example/likes/1''), (''type'', JStr ''Like''),
     (''actor'', JStr ''https://remote.example/users/bob''),
     (''object'', JStr ''https://local.example/videos/1'')]"

text \<open>The same Like with its object given as a dict.\<close>

definition like_activity_dict :: json where
  "like_activity_dict = JDict [(''@context'', JStr ''https://www.w3.org/ns/activitystreams''),
     (''id'', JStr ''https://remote.example/likes/1''), (''type'', JStr ''Like''),
     (''actor'', JStr ''https://remote.example/users/bob''),
     (''object'', JDict [(''id'', JStr ''https://local.example/videos/1''),
                         (''type'', JStr ''Video'')])]"

definition sample_env :: request_env where
  "sample_env = \<lparr> rq_fetched_key = Some ''PEM'',
     rq_download = \<lparr> dl_connected = True, dl_status_ok = True, dl_content_length = None,
                     dl_chunks = [''abcd'', ''efgh''], dl_broken = False \<rparr>,
     rq_file_path = ''uploads/federated/federated_20261103_192100.mp4'' \<rparr>"

text \<open>
  A Create for a video that declares 200 seconds, a world that already holds a video
  with that id, a reply that declares 600000000 bytes, and a video that declares its
  duration in minutes.
\<close>

definition long_video_obj :: "(string \<times> json) list" where
  "long_video_obj = [(''type'', JStr ''Video''), (''id'', JStr ''https://remote.example/videos/9''),
     (''name'', JStr ''Dogs''), (''url'', JStr ''https://remote.example/media/9.mp4''),
     (''duration'', JStr ''PT200S'')]"

definition create_long_video :: json where
  "create_long_video = JDict [(''@context'', JStr ''https://www.w3.org/ns/activitystreams''),
     (''id'', JStr ''https://remote.example/activities/9''), (''type'', JStr ''Create''),
     (''actor'', JStr ''https://remote.example/users/bob''),
     (''object'', JDict long_video_obj)]"

definition federated_video :: video_post where
  "federated_video = sample_video\<lparr> vp_id := 2, vp_is_federated := True,
     vp_activitypub_id := Some ''https://remote.example/videos/9'' \<rparr>"

definition federated_world :: world where
  "federated_world = sample_world\<lparr> w_videos := [sample_video, federated_video] \<rparr>"

definition too_large_reply :: http_download where
  "too_large_reply = \<lparr> dl_connected = True, dl_status_ok = True,
     dl_content_length = Some ''600000000'', dl_chunks = [''abcd''], dl_broken = False \<rparr>"

definition minutes_video_obj :: "(string \<times> json) list" where
  "minutes_video_obj = [(''type'', JStr ''Video''), (''id'', JStr ''https://remote.example/videos/10''),
     (''name'', JStr ''Birds''), (''url'', JStr ''https://remote.example/media/10.mp4''),
     (''duration'', JStr ''PT5M'')]"

definition env_503 :: delivery_env where
  "env_503 = \<lparr> env_activity_found = True, env_user_found = True,
               env_signature = Some ''sig'', env_outcome = Response 503 ''busy'' \<rparr>"

definition env_202 :: delivery_env where
  "env_202 = \<lparr> env_activity_found = True, env_user_found = True,
               env_signature = Some ''sig'', env_outcome = Response 202 ''Accepted'' \<rparr>"

definition rec0 :: delivery_record where
  "rec0 = new_delivery_record 1 0 ''https://remote.example/inbox''"

definition sample_ops :: "outbox_op list" where
  "sample_ops =
     [CreateTasks 1 0 [''https://a.example/inbox'', ''https://b.example/inbox''],
      ProcessRecord 0 env_202 5, ProcessRecord 1 env_503 6]"

section \<open>Properties of outbound delivery\<close>

lemma deliver_activity_flag: "fst (deliver_activity (env_outcome env)) = got_2xx env"
  by (cases "env_outcome env") (simp_all add: got_2xx_def)

lemma attempt_fails_step:
  assumes "attempt_fails env"
  shows "attempt env now r =
     (if dr_attempts r + 1 \<ge> 5
      then r\<lparr>dr_attempts := dr_attempts r + 1, dr_last_attempt_at := Some now,
              dr_error_message := snd (deliver_activity (env_outcome env)),
              dr_status := ''failed'', dr_next_retry_at := None\<rparr>
      else (case py_index DELIVERY_RETRY_DELAYS_MIN (dr_attempts r) of
              Inl e \<Rightarrow> r
            | Inr d \<Rightarrow> r\<lparr>dr_attempts := dr_attempts r + 1, dr_last_attempt_at := Some now,
              dr_error_message := snd (deliver_activity (env_outcome env)),
              dr_next_retry_at := Some (now + timedelta_minutes d)\<rparr>))"
proof -
  obtain ok msg where d: "deliver_activity (env_outcome env) = (ok, msg)"
    by (cases "deliver_activity (env_outcome env)")
  have "\<not> ok" using assms d deliver_activity_flag [of env] by (simp add: attempt_fails_def)
  then show ?thesis using assms d
    by (auto simp: attempt_def attempt_fails_def process_delivery_record_def
        DELIVERY_RETRY_ATTEMPTS_def Let_def split: option.splits sum.splits)
qed

lemma delay_lookup:
  "py_index DELIVERY_RETRY_DELAYS_MIN 0 = Inr 1"
  "py_index DELIVERY_RETRY_DELAYS_MIN 1 = Inr 5"
  "py_index DELIVERY_RETRY_DELAYS_MIN 2 = Inr 15"
  "py_index DELIVERY_RETRY_DELAYS_MIN 3 = Inr 60"
  by (simp_all add: py_index_def DELIVERY_RETRY_DELAYS_MIN_def)

lemma attempt_succeeds_step:
  assumes "attempt_succeeds env"
  shows "attempt env now r =
     r\<lparr>dr_attempts := dr_attempts r + 1, dr_last_attempt_at := Some now,
       dr_status := ''delivered'', dr_next_retry_at := None\<rparr>"
proof -
  obtain ok msg where d: "deliver_activity (env_outcome env) = (ok, msg)"
    by (cases "deliver_activity (env_outcome env)")
  have "ok" using assms d deliver_activity_flag [of env] by (simp add: attempt_succeeds_def)
  then show ?thesis using assms d
    by (auto simp: attempt_def attempt_succeeds_def process_delivery_record_def
        Let_def split: option.splits)
qed

lemma env_503_fails: "attempt_fails env_503"
  by (simp add: attempt_fails_def env_503_def got_2xx_def)

text \<open>
  Claim C3, as the code has it. A record at \<open>attempts = 0\<close> whose attempts fail five
  times in a row gets \<open>next_retry_at\<close> at 1, 5, 15 and 60 minutes after the first four
  attempts, its status unchanged; the fifth failure reaches \<open>attempts = 5\<close>, sets the
  status to \<open>failed\<close> and clears \<open>next_retry_at\<close>, so the 240-minute entry of the
  schedule is never read. A 2xx response at any attempt sets \<open>delivered\<close> and clears
  \<open>next_retry_at\<close>, and the sweep never selects the record again.
\<close>

theorem retry_schedule:
  assumes "dr_attempts r0 = 0"
    and "attempt_fails e1" and "attempt_fails e2" and "attempt_fails e3"
    and "attempt_fails e4" and "attempt_fails e5"
    and "r1 = attempt e1 t1 r0" and "r2 = attempt e2 t2 r1" and "r3 = attempt e3 t3 r2"
    and "r4 = attempt e4 t4 r3" and "r5 = attempt e5 t5 r4"
  shows "dr_next_retry_at r1 = Some (t1 + timedelta_minutes 1) \<and>
         dr_next_retry_at r2 = Some (t2 + timedelta_minutes 5) \<and>
         dr_next_retry_at r3 = Some (t3 + timedelta_minutes 15) \<and>
         dr_next_retry_at r4 = Some (t4 + timedelta_minutes 60) \<and>
         dr_status r1 = dr_status r0 \<and> dr_status r2 = dr_status r0 \<and>
         dr_status r3 = dr_status r0 \<and> dr_status r4 = dr_status r0 \<and>
         dr_status r5 = ''failed'' \<and> dr_next_retry_at r5 = None \<and>
         (\<forall>e t r. attempt_succeeds e \<longrightarrow>
            dr_status (attempt e t r) = ''delivered'' \<and>
            dr_next_retry_at (attempt e t r) = None \<and>
            (\<forall>t'. \<not> is_due t' (attempt e t r)))"
proof -
  have a1: "dr_attempts r1 = 1" and n1: "dr_next_retry_at r1 = Some (t1 + timedelta_minutes 1)"
    and s1: "dr_status r1 = dr_status r0"
    using assms(1,2,7) by (simp_all add: attempt_fails_step delay_lookup)
  have a2: "dr_attempts r2 = 2" and n2: "dr_next_retry_at r2 = Some (t2 + timedelta_minutes 5)"
    and s2: "dr_status r2 = dr_status r1"
    using a1 assms(3,8) by (simp_all add: attempt_fails_step delay_lookup)
  have a3: "dr_attempts r3 = 3" and n3: "dr_next_retry_at r3 = Some (t3 + timedelta_minutes 15)"
    and s3: "dr_status r3 = dr_status r2"
    using a2 assms(4,9) by (simp_all add: attempt_fails_step delay_lookup)
  have a4: "dr_attempts r4 = 4" and n4: "dr_next_retry_at r4 = Some (t4 + timedelta_minutes 60)"
    and s4: "dr_status r4 = dr_status r3"
    using a3 assms(5,10) by (simp_all add: attempt_fails_step delay_lookup)
  have f5: "dr_status r5 = ''failed''" "dr_next_retry_at r5 = None"
    using a4 assms(6,11) by (simp_all add: attempt_fails_step)
  have ok: "\<forall>e t r. attempt_succeeds e \<longrightarrow>
            dr_status (attempt e t r) = ''delivered'' \<and>
            dr_next_retry_at (attempt e t r) = None \<and>
            (\<forall>t'. \<not> is_due t' (attempt e t r))"
    by (simp add: attempt_succeeds_step is_due_def)
  show ?thesis using n1 n2 n3 n4 s1 s2 s3 s4 f5 ok by simp
qed

theorem retry_schedule_witness:
  "dr_next_retry_at (attempt env_503 1000 rec0) = Some 1060 \<and>
   dr_next_retry_at (attempt env_503 2000 (attempt env_503 1000 rec0)) = Some 2300 \<and>
   dr_status (attempt env_503 5000 (attempt env_503 4000 (attempt env_503 3000
        (attempt env_503 2000 (attempt env_503 1000 rec0))))) = ''failed'' \<and>
   dr_status (attempt env_202 7 rec0) = ''delivered''"
proof -
  have a0: "dr_attempts rec0 = 0" by (simp add: rec0_def new_delivery_record_def)
  have s: "attempt_succeeds env_202" by (simp add: attempt_succeeds_def env_202_def got_2xx_def)
  from retry_schedule [OF a0 env_503_fails env_503_fails env_503_fails env_503_fails env_503_fails
      refl refl refl refl refl, of 1000 2000 3000 4000 5000] s
  show ?thesis by (simp add: timedelta_minutes_def)
qed

text \<open>
  The claim as written fails at the fifth failure: \<open>next_retry_at\<close> is not the attempt
  time plus 240 minutes.
\<close>

theorem fifth_failure_counterexample:
  "dr_next_retry_at
     (attempt env_503 5000 (attempt env_503 4000 (attempt env_503 3000
        (attempt env_503 2000 (attempt env_503 1000 rec0)))))
   \<noteq> Some (5000 + timedelta_minutes 240)"
  by (simp add: attempt_fails_step [OF env_503_fails] rec0_def new_delivery_record_def delay_lookup)

lemma process_status_ok:
  "status_ok r \<Longrightarrow> status_ok (fst (process_delivery_record env now r))"
  by (cases "deliver_activity (env_outcome env)")
     (auto simp: status_ok_def process_delivery_record_def Let_def split: option.splits sum.splits)

lemma step_status_ok:
  "list_all status_ok db \<Longrightarrow> list_all status_ok (outbox_step db op)"
proof (cases op)
  case (CreateTasks aid now inboxes)
  assume "list_all status_ok db"
  then show ?thesis using CreateTasks
    by (auto simp: create_delivery_tasks_def list_all_iff status_ok_def new_delivery_record_def)
next
  case (ProcessRecord i env now)
  assume a: "list_all status_ok db"
  show ?thesis
  proof (cases "i < length db")
    case True
    then have "status_ok (db ! i)" using a by (simp add: list_all_length)
    then have "status_ok (fst (process_delivery_record env now (db ! i)))"
      by (rule process_status_ok)
    then show ?thesis using a True ProcessRecord
      by (auto simp: list_all_length nth_list_update)
  next
    case False
    then show ?thesis using a ProcessRecord by simp
  qed
qed

lemma run_status_ok:
  "list_all status_ok db \<Longrightarrow> list_all status_ok (foldl outbox_step db ops)"
  by (induction ops arbitrary: db) (simp_all add: step_status_ok)

lemma partition_counts:
  "list_all status_ok rs \<Longrightarrow>
   count_status ''delivered'' rs + count_status ''pending'' rs + count_status ''failed'' rs
     = length rs"
  by (induction rs) (auto simp: count_status_def status_ok_def)

text \<open>
  Claim C10. After any run of \<open>create_delivery_tasks\<close> and \<open>process_delivery_record\<close>
  from the empty table, every record has status pending, delivered or failed, and for
  every activity \<open>get_delivery_stats\<close> returns a partition: delivered + pending + failed
  = total.
\<close>

theorem delivery_stats_partition:
  "list_all status_ok (outbox_run ops) \<and>
   st_delivered (get_delivery_stats (outbox_run ops) aid)
     + st_pending (get_delivery_stats (outbox_run ops) aid)
     + st_failed (get_delivery_stats (outbox_run ops) aid)
   = st_total (get_delivery_stats (outbox_run ops) aid)"
proof -
  have inv: "list_all status_ok (outbox_run ops)"
    unfolding outbox_run_def by (rule run_status_ok) simp
  then have "list_all status_ok (filter (\<lambda>r. dr_activity_id r = aid) (outbox_run ops))"
    by (simp add: list_all_iff)
  from partition_counts [OF this] inv show ?thesis
    by (simp add: get_delivery_stats_def Let_def)
qed

theorem delivery_stats_partition_witness:
  "st_total (get_delivery_stats (outbox_run sample_ops) 1) = 2 \<and>
   st_delivered (get_delivery_stats (outbox_run sample_ops) 1) = 1 \<and>
   st_pending (get_delivery_stats (outbox_run sample_ops) 1) = 1 \<and>
   st_failed (get_delivery_stats (outbox_run sample_ops) 1) = 0"
  using delivery_stats_partition [of sample_ops 1]
  by (simp add: sample_ops_def outbox_run_def create_delivery_tasks_def new_delivery_record_def
      get_delivery_stats_def count_status_def process_delivery_record_def env_202_def env_503_def
      py_index_def DELIVERY_RETRY_DELAYS_MIN_def DELIVERY_RETRY_ATTEMPTS_def Let_def)

section \<open>Properties of HTTP signatures\<close>

lemma split_on_nonempty: "split_on sep s \<noteq> []"
  by (induction s) (auto split: list.splits)

lemma split_on_append:
  "sep \<notin> set a \<Longrightarrow> split_on sep (a @ sep # r) = a # split_on sep r"
  by (induction a) (auto split: list.splits)

lemma split_on_none: "sep \<notin> set s \<Longrightarrow> split_on sep s = [s]"
  by (induction s) (auto split: list.splits)

lemma good_header_verifies:
  "verify_signature toy_lib good_header ''post /inbox'' ''local.example'' toy_date
     ''SHA-256=abc'' ''PEM''"
  by (simp add: verify_signature_def verify_signature_body_def parse_signature_header_def
      good_header_def signature_header_of_def signer_string_def toy_date_def toy_lib_def
      reconstruct_signing_string_def split_ws_def signature_line_def is_space_def
      strip_def strip_chars_def dquote_def newline_def Let_def)







lemma dropWhile_not_member: "q \<notin> set xs \<Longrightarrow> dropWhile (\<lambda>c. c = q) (xs @ ys) = xs @ ys \<or> xs = []"
  by (cases xs) auto

lemma strip_quotes:
  assumes "dquote \<notin> set sb"
  shows "strip_chars (\<lambda>c. c = dquote) (dquote # sb @ [dquote]) = sb"
proof (cases sb)
  case Nil
  then show ?thesis by (simp add: strip_chars_def)
next
  case (Cons a as)
  then have a: "a \<noteq> dquote" using assms by auto
  have "rev sb \<noteq> []" using Cons by simp
  then obtain b bs where r: "rev sb = b # bs" by (cases "rev sb") auto
  then have "b \<in> set sb" by (metis list.set_intros(1) set_rev)
  then have b: "b \<noteq> dquote" using assms by auto
  have 1: "dropWhile (\<lambda>c. c = dquote) (dquote # sb @ [dquote]) = sb @ [dquote]"
    using Cons a by simp
  have 2: "dropWhile (\<lambda>c. c = dquote) (rev (sb @ [dquote])) = rev sb"
    using r b by simp
  show ?thesis unfolding strip_chars_def 1 2 by simp
qed

lemma header_pieces:
  assumes "CHR '','' \<notin> set key_id" and "CHR '','' \<notin> set sb"
  shows "split_on CHR '','' (signature_header_of key_id sb) =
     [''keyId='' @ dquote # key_id @ [dquote],
      ''algorithm='' @ dquote # ''rsa-sha256'' @ [dquote],
      ''headers='' @ dquote # ''(request-target) host date digest'' @ [dquote],
      ''signature='' @ dquote # sb @ [dquote]]"
proof -
  have 1: "signature_header_of key_id sb =
      (''keyId='' @ dquote # key_id @ [dquote]) @ CHR '','' #
      (''algorithm='' @ dquote # ''rsa-sha256'' @ [dquote]) @ CHR '','' #
      (''headers='' @ dquote # ''(request-target) host date digest'' @ [dquote]) @ CHR '','' #
      (''signature='' @ dquote # sb @ [dquote])"
    by (simp add: signature_header_of_def)
  show ?thesis
    unfolding 1
    apply (subst split_on_append)
     apply (simp add: dquote_def assms)
    apply (subst split_on_append)
     apply (simp add: dquote_def)
    apply (subst split_on_append)
     apply (simp add: dquote_def)
    apply (subst split_on_none)
     apply (simp add: dquote_def assms)
    apply simp
    done
qed

lemma header_parse:
  assumes "CHR '','' \<notin> set key_id" and "CHR '','' \<notin> set sb" and "dquote \<notin> set sb"
  shows "\<exists>kv. parse_signature_header (signature_header_of key_id sb) =
     Inr [(''signature'', sb), (''headers'', ''(request-target) host date digest''),
          (''algorithm'', ''rsa-sha256''), (''keyId'', kv)]"
proof -
  have s: "strip_chars (\<lambda>c. c = dquote) (dquote # sb @ [dquote]) = sb"
    using assms(3) by (rule strip_quotes)
  have h: "strip_chars (\<lambda>c. c = dquote) (dquote # ''(request-target) host date digest'' @ [dquote])
             = ''(request-target) host date digest''"
    by (rule strip_quotes) (simp add: dquote_def)
  have a: "strip_chars (\<lambda>c. c = dquote) (dquote # ''rsa-sha256'' @ [dquote]) = ''rsa-sha256''"
    by (rule strip_quotes) (simp add: dquote_def)
  have k: "strip ''keyId'' = ''keyId''" "strip ''algorithm'' = ''algorithm''"
    "strip ''headers'' = ''headers''" "strip ''signature'' = ''signature''"
    by (simp_all add: strip_def strip_chars_def is_space_def)
  show ?thesis
    unfolding parse_signature_header_def header_pieces [OF assms(1,2)]
    using s h a by (simp add: k)
qed

lemma reconstruct_standard:
  "map_of sig_parts ''headers'' = Some ''(request-target) host date digest'' \<Longrightarrow>
   reconstruct_signing_string sig_parts ''post /inbox'' netloc date (''SHA-256='' @ dg)
     = signer_string netloc date dg"
  by (simp add: reconstruct_signing_string_def split_ws_def is_space_def signature_line_def
      signer_string_def Let_def)

text \<open>
  For a key id without a comma the round trip goes through, for every library whose
  base64 text of the signature has no comma or quote, decodes to the signature, and
  whose verification accepts the signature of the key pair on the signed string.
\<close>

lemma roundtrip_without_comma:
  assumes "load_pem_private_key lib pem = Some sk" and "load_pem_public_key lib pub = Some pk"
    and "dg = b64encode lib (sha256_digest lib (json_dumps lib activity))"
    and "sb = b64encode lib (rsa_sign lib sk (signer_string netloc date dg))"
    and "CHR '','' \<notin> set key_id" and "CHR '','' \<notin> set sb" and "dquote \<notin> set sb"
    and "sb \<noteq> []"
    and "b64decode lib sb = Some (rsa_sign lib sk (signer_string netloc date dg))"
    and "rsa_verify lib pk (rsa_sign lib sk (signer_string netloc date dg))
           (signer_string netloc date dg)"
  shows "sign_activity lib netloc date activity pem key_id = Inr (signature_header_of key_id sb) \<and>
         verify_signature lib (signature_header_of key_id sb) ''post /inbox'' netloc date
           (''SHA-256='' @ dg) pub"
proof -
  have s: "sign_activity lib netloc date activity pem key_id = Inr (signature_header_of key_id sb)"
    using assms(1,3,4) by (simp add: sign_activity_def Let_def)
  obtain kv where p: "parse_signature_header (signature_header_of key_id sb) =
     Inr [(''signature'', sb), (''headers'', ''(request-target) host date digest''),
          (''algorithm'', ''rsa-sha256''), (''keyId'', kv)]"
    using header_parse [OF assms(5,6,7)] by blast
  define d where "d = ''SHA-256='' @ dg"
  have r: "reconstruct_signing_string
             [(''signature'', sb), (''headers'', ''(request-target) host date digest''),
              (''algorithm'', ''rsa-sha256''), (''keyId'', kv)] ''post /inbox'' netloc date d
           = signer_string netloc date dg"
    unfolding d_def by (rule reconstruct_standard) simp
  have "verify_signature lib (signature_header_of key_id sb) ''post /inbox'' netloc date d pub"
    using assms(2,8,9,10)
    by (simp add: verify_signature_def verify_signature_body_def p r Let_def)
  with s show ?thesis by (simp add: d_def)
qed

lemma bad_header_parse:
  "parse_signature_header (signature_header_of bad_key_id sb) = Inl ValueError"
proof -
  have 1: "signature_header_of bad_key_id sb =
      (''keyId='' @ [dquote] @ ''https://social.example/users/a'') @ CHR '','' #
      ((''b#main-key'' @ [dquote]) @ CHR '','' #
      (''algorithm='' @ [dquote] @ ''rsa-sha256'' @ [dquote] @ '','' @
     ''headers='' @ [dquote] @ ''(request-target) host date digest'' @ [dquote] @ '','' @
     ''signature='' @ [dquote] @ sb @ [dquote]))"
    by (simp add: signature_header_of_def bad_key_id_def)
  show ?thesis
    unfolding parse_signature_header_def 1
    apply (subst split_on_append)
     apply (simp add: dquote_def)
    apply (subst split_on_append)
     apply (simp add: dquote_def)
    apply (simp add: dquote_def)
    done
qed

text \<open>
  Claim C1 at a key id with a comma, whatever the library: the header that
  \<open>sign_activity\<close> returns is cut inside the key id by the parser of
  \<open>verify_signature\<close>, the second piece has no \<open>=\<close>, and verification answers
  \<open>False\<close> for every request target, host, date, digest and public key, the matching
  ones included.
\<close>

theorem comma_key_id_breaks_roundtrip:
  "sign_activity lib netloc date activity pem bad_key_id = Inr hdr \<Longrightarrow>
   verify_signature lib hdr rt host d dg pub = False"
  by (auto simp: sign_activity_def Let_def verify_signature_def verify_signature_body_def
       bad_header_parse split: option.splits)

theorem comma_key_id_witness:
  "sign_activity toy_lib ''local.example'' toy_date like_activity ''PEM'' bad_key_id
     = Inr (signature_header_of bad_key_id
         (''PEM:'' @ signer_string ''local.example'' toy_date ''h{}'')) \<and>
   verify_signature toy_lib (signature_header_of bad_key_id
         (''PEM:'' @ signer_string ''local.example'' toy_date ''h{}''))
      ''post /inbox'' ''local.example'' toy_date ''SHA-256=h{}'' ''PEM'' = False"
proof -
  have s: "sign_activity toy_lib ''local.example'' toy_date like_activity ''PEM'' bad_key_id
     = Inr (signature_header_of bad_key_id
         (''PEM:'' @ signer_string ''local.example'' toy_date ''h{}''))"
    by (simp add: sign_activity_def toy_lib_def Let_def)
  from comma_key_id_breaks_roundtrip [OF s] s show ?thesis by simp
qed

section \<open>Properties of identity migration\<close>

text \<open>
  Claim C4 at a Move whose actor is on file: \<open>verify_move_activity\<close> answers
  \<open>True\<close> for every signature string, so no signature is rejected.
\<close>

theorem verify_move_ignores_signature:
  "verify_move_activity sample_dids sample_move signature = True"
  by (simp add: verify_move_activity_def sample_dids_def sample_move_def)

theorem verify_move_ignores_signature_witness:
  "verify_move_activity sample_dids sample_move ''not a signature'' = True"
  by (rule verify_move_ignores_signature)

section \<open>Properties of inbound processing\<close>




lemma round_shift_error:
  "2 * \<bar>round_shift a d * 2 ^ d - a\<bar> \<le> 2 ^ d"
proof -
  define q where "q = a div 2 ^ d"
  define r where "r = a mod 2 ^ d"
  define p :: int where "p = 2 ^ d"
  have a: "a = q * p + r"
    using div_mult_mod_eq [of a "2 ^ d"] by (simp add: q_def r_def p_def)
  have r0: "0 \<le> r" and r1: "r < p" by (simp_all add: r_def p_def)
  have c: "round_shift a d = q \<and> 2 * r \<le> p \<or> round_shift a d = q + 1 \<and> 2 * r \<ge> p"
    by (auto simp: round_shift_def Let_def q_def r_def p_def)
  have "2 * \<bar>round_shift a d * p - a\<bar> \<le> p"
    using c r0 r1 unfolding a by (auto simp: algebra_simps abs_if)
  then show ?thesis by (simp add: p_def)
qed

lemma round53_error:
  "\<bar>dval (round53 x) - dval x\<bar> \<le> \<bar>dval x\<bar> / 2 ^ 53"
proof (cases "bitlen \<bar>fst x\<bar> - 53 \<le> 0")
  case True
  then show ?thesis by (simp add: round53_def)
next
  case False
  define m where "m = fst x"
  define e where "e = snd x"
  define a where "a = \<bar>m\<bar>"
  define D where "D = nat (bitlen a - 53)"
  define rs where "rs = round_shift a D"
  have d: "bitlen a - 53 = int D" and Dpos: "0 < D"
    using False by (simp_all add: D_def a_def m_def)
  have apos: "0 < a"
  proof (rule ccontr)
    assume "\<not> 0 < a"
    then have "bitlen a = 0" by (simp add: bitlen_eq_zero_iff)
    with d show False by simp
  qed
  have mnz: "m \<noteq> 0" using apos by (auto simp: a_def)
  have "nat (bitlen a - 1) = 52 + D" using d by simp
  with bitlen_bounds [OF apos] have lo: "2 ^ (52 + D) \<le> a" by simp
  have er: "2 * \<bar>rs * 2 ^ D - a\<bar> \<le> 2 ^ D"
    unfolding rs_def by (rule round_shift_error)
  have int_bound: "2 ^ 53 * \<bar>rs * 2 ^ D - a\<bar> \<le> a"
  proof -
    have "2 ^ 53 * \<bar>rs * 2 ^ D - a\<bar> = 2 ^ 52 * (2 * \<bar>rs * 2 ^ D - a\<bar>)" by simp
    also have "\<dots> \<le> 2 ^ 52 * 2 ^ D" using er by (intro mult_left_mono) simp_all
    also have "\<dots> = 2 ^ (52 + D)" by (simp add: power_add)
    finally show ?thesis using lo by simp
  qed
  have r: "round53 x = (sgn m * rs, e + int D)"
    using False d by (simp add: round53_def Let_def m_def e_def a_def rs_def)
  have p: "(2::rat) powi (e + int D) = 2 powi e * 2 ^ D"
    by (simp add: power_int_add)
  have v1: "dval (round53 x) = of_int (sgn m) * 2 powi e * (of_int rs * 2 ^ D)"
    by (simp add: r dval_def p)
  have "m = sgn m * a" by (simp add: a_def sgn_if)
  then have v0: "dval x = of_int (sgn m) * 2 powi e * of_int a"
    by (metis dval_def e_def m_def mult.assoc mult.commute of_int_mult)
  have diff: "dval (round53 x) - dval x
                = of_int (sgn m) * 2 powi e * of_int (rs * 2 ^ D - a)"
    by (simp add: v1 v0 algebra_simps)
  have pe: "(0::rat) < 2 powi e" by simp
  have sg: "\<bar>of_int (sgn m) :: rat\<bar> = 1" using mnz by (simp add: sgn_if)
  have "\<bar>dval (round53 x) - dval x\<bar> = 2 powi e * of_int \<bar>rs * 2 ^ D - a\<bar>"
    unfolding diff using pe sg by (simp add: abs_mult)
  also have "\<dots> \<le> 2 powi e * (of_int a / 2 ^ 53)"
  proof (intro mult_left_mono)
    have "(of_int (2 ^ 53 * \<bar>rs * 2 ^ D - a\<bar>) :: rat) \<le> of_int a"
      using int_bound by (simp only: of_int_le_iff)
    then show "(of_int \<bar>rs * 2 ^ D - a\<bar> :: rat) \<le> of_int a / 2 ^ 53"
      by (simp add: field_simps)
    show "(0::rat) \<le> 2 powi e" using pe by simp
  qed
  also have "\<dots> = \<bar>dval x\<bar> / 2 ^ 53"
    unfolding v0 using pe sg apos by (simp add: abs_mult)
  finally show ?thesis .
qed

lemma round53_bounds:
  assumes "0 \<le> dval x"
  shows "dval x * (1 - 1 / 2 ^ 53) \<le> dval (round53 x)"
    and "dval (round53 x) \<le> dval x * (1 + 1 / 2 ^ 53)"
  using round53_error [of x] assms by (simp_all add: abs_if algebra_simps split: if_splits)

lemma float_of_int_exact:
  assumes "\<bar>n\<bar> < 2 ^ 53"
  shows "dval (float_of_int n) = of_int n"
proof -
  have "bitlen \<bar>n\<bar> \<le> 53" using assms by (simp add: bitlen_le_iff_power)
  then show ?thesis by (simp add: float_of_int_def round53_def dval_def)
qed

lemma float_mul_exact: "dval (fst x * fst y, snd x + snd y) = dval x * dval y"
  by (simp add: dval_def power_int_add)

lemma float_add_exact:
  "dval (fst x * 2 ^ nat (snd x - min (snd x) (snd y))
           + fst y * 2 ^ nat (snd y - min (snd x) (snd y)), min (snd x) (snd y))
     = dval x + dval y"
proof -
  define e where "e = min (snd x) (snd y)"
  have 1: "(2::rat) ^ nat (snd x - e) * 2 powi e = 2 powi (snd x)"
    and 2: "(2::rat) ^ nat (snd y - e) * 2 powi e = 2 powi (snd y)"
    by (simp_all add: e_def flip: power_int_of_nat power_int_add)
  show ?thesis
    unfolding e_def [symmetric] dval_def
    by (simp add: algebra_simps 1 2)
       (metis (no_types, opaque_lifting) 1 2 mult.assoc mult.commute)
qed

lemma float_0_1_value: "dval float_0_1 = 3602879701896397 / 36028797018963968"
  by (simp add: dval_def float_0_1_def power_int_minus)

lemma engagement_linear:
  fixes S t P r :: rat
  assumes "0 \<le> S" "0 \<le> t"
    and "t * (3602879701896397 / 36028797018963968) * (1 - 1 / 2 ^ 53) \<le> P"
    and "P \<le> t * (3602879701896397 / 36028797018963968) * (1 + 1 / 2 ^ 53)"
    and "(S + P) * (1 - 1 / 2 ^ 53) \<le> r"
    and "r \<le> (S + P) * (1 + 1 / 2 ^ 53)"
  shows "\<bar>r - (S + t / 10)\<bar> \<le> (S + t / 10) / 2 ^ 51"
proof (rule abs_leI)
  show "r - (S + t / 10) \<le> (S + t / 10) / 2 ^ 51"
    using assms by (simp add: field_simps)
  show "- (r - (S + t / 10)) \<le> (S + t / 10) / 2 ^ 51"
    using assms by (simp add: field_simps)
qed

lemma engagement_d_bound:
  assumes "0 \<le> l" "0 \<le> c" "0 \<le> s" "0 \<le> v"
    and "l * 2 + c * 3 + s * 4 < 2 ^ 53" and "v < 2 ^ 53"
  shows "\<bar>engagement_d l c s v
           - (2 * of_int l + 3 * of_int c + 4 * of_int s + of_int v / 10)\<bar>
         \<le> (2 * of_int l + 3 * of_int c + 4 * of_int s + of_int v / 10) / 2 ^ 51"
proof -
  define S where "S = l * 2 + c * 3 + s * 4"
  define A where "A = float_of_int S"
  define FV where "FV = float_of_int v"
  define Y where "Y = (fst FV * fst float_0_1, snd FV + snd float_0_1)"
  define P where "P = float_mul FV float_0_1"
  define Z where "Z = (fst A * 2 ^ nat (snd A - min (snd A) (snd P))
           + fst P * 2 ^ nat (snd P - min (snd A) (snd P)), min (snd A) (snd P))"
  have S0: "0 \<le> S" using assms by (simp add: S_def)
  have a: "dval A = of_int S" unfolding A_def using S0 assms(5)
    by (intro float_of_int_exact) (simp add: S_def)
  have fv: "dval FV = of_int v" unfolding FV_def using assms(4,6)
    by (intro float_of_int_exact) simp
  have y: "dval Y = of_int v * (3602879701896397 / 36028797018963968)"
    unfolding Y_def by (simp add: float_mul_exact fv float_0_1_value)
  have y0: "0 \<le> dval Y" using assms(4) by (simp add: y)
  have p: "P = round53 Y" by (simp add: P_def float_mul_def Y_def)
  note pb = round53_bounds [OF y0, folded p]
  have "0 \<le> dval Y * (1 - 1 / 2 ^ 53)" using y0 by simp
  then have p0: "0 \<le> dval P" using pb(1) by (rule order_trans)
  have z: "dval Z = of_int S + dval P"
    unfolding Z_def by (simp add: float_add_exact a)
  have z0: "0 \<le> dval Z" using S0 p0 by (simp add: z)
  have e: "engagement_d l c s v = dval (round53 Z)"
    by (simp add: engagement_d_def float_add_def Let_def Z_def A_def P_def FV_def S_def)
  note rb = round53_bounds [OF z0]
  have "\<bar>dval (round53 Z) - (of_int S + of_int v / 10)\<bar> \<le> (of_int S + of_int v / 10) / 2 ^ 51"
    using S0 assms(4) pb rb unfolding y z
    by (intro engagement_linear) simp_all
  then show ?thesis
    by (simp add: e S_def algebra_simps)
qed


lemma engagement_within_rounding:
  assumes "counters_in_column_range v"
  shows "score_within_rounding (v\<lparr>vp_engagement_score := engagement v\<rparr>)"
proof -
  have "vp_like_count v * 2 + vp_comment_count v * 3 + vp_share_count v * 4 < 2 ^ 53"
    and "vp_view_count v < 2 ^ 53"
    using assms by (simp_all add: counters_in_column_range_def)
  then show ?thesis
    using assms engagement_d_bound [of "vp_like_count v" "vp_comment_count v"
        "vp_share_count v" "vp_view_count v"]
    by (simp add: score_within_rounding_def exact_score_def engagement_def
        counters_in_column_range_def)
qed


lemma like_activity_target:
  "target_object_id like_activity = Inr (Some (JStr ''https://local.example/videos/1''))"
  by (simp add: target_object_id_def like_activity_def)

lemma like_activity_id:
  "activity_id_of like_activity = Some (JStr ''https://remote.example/likes/1'')"
  by (simp add: activity_id_of_def like_activity_def)



text \<open>
  When the object of the Like is a dict, the activity is stored and the second
  submission changes nothing.
\<close>

lemma duplicate_like_dict_object_once:
  assumes "verify_signature lib sg rt host date dg ''PEM''"
  shows "map vp_like_count (w_videos (fst (handle_activity lib
            (fst (handle_activity lib sample_world sample_env like_activity_dict sg rt host date dg))
            sample_env like_activity_dict sg rt host date dg))) = [1] \<and>
         map ar_activity_id (w_activities (fst (handle_activity lib
            (fst (handle_activity lib sample_world sample_env like_activity_dict sg rt host date dg))
            sample_env like_activity_dict sg rt host date dg)))
           = [''https://remote.example/likes/1''] \<and>
         snd (handle_activity lib
            (fst (handle_activity lib sample_world sample_env like_activity_dict sg rt host date dg))
            sample_env like_activity_dict sg rt host date dg)
           = mk_response 200 ''Like already processed''"
proof -
  have v: "validate_activity_schema like_activity_dict"
    by (simp add: validate_activity_schema_def like_activity_dict_def is_jstr_def Let_def)
  have p: "parse_activity like_activity_dict = Some like_activity_dict"
    by (simp add: parse_activity_def like_activity_dict_def valid_types_def)
  have a: "jget like_activity_dict ''actor''
             = Inr (Some (JStr ''https://remote.example/users/bob''))"
    by (simp add: like_activity_dict_def)
  have ty: "(case like_activity_dict of JDict kvs \<Rightarrow> map_of kvs ''type'' | _ \<Rightarrow> None)
              = Some (JStr ''Like'')"
    by (simp add: like_activity_dict_def)
  have k: "rq_fetched_key sample_env = Some ''PEM''"
    by (simp add: sample_env_def)
  have t: "target_object_id like_activity_dict
             = Inr (Some (JStr ''https://local.example/videos/1''))"
    by (simp add: target_object_id_def like_activity_dict_def)
  have i: "activity_id_of like_activity_dict = Some (JStr ''https://remote.example/likes/1'')"
    by (simp add: activity_id_of_def like_activity_dict_def)
  have st: "\<And>w. store_activity w like_activity_dict False =
      (if ''https://remote.example/likes/1'' \<in> set (map ar_activity_id (w_activities w)) then w
       else w\<lparr>w_activities := w_activities w @
              [\<lparr> ar_activity_id = ''https://remote.example/likes/1'',
                 ar_content = like_activity_dict, ar_is_local = False \<rparr>]\<rparr>)"
  proof -
    fix w
    have o1: "object_field like_activity_dict ''id''
                = Inr (Some (JStr ''https://local.example/videos/1''))"
      and o2: "object_field like_activity_dict ''type'' = Inr (Some (JStr ''Video''))"
      and o3: "jget like_activity_dict ''id'' = Inr (Some (JStr ''https://remote.example/likes/1''))"
      by (simp_all add: object_field_def like_activity_dict_def)
    show "store_activity w like_activity_dict False =
      (if ''https://remote.example/likes/1'' \<in> set (map ar_activity_id (w_activities w)) then w
       else w\<lparr>w_activities := w_activities w @
              [\<lparr> ar_activity_id = ''https://remote.example/likes/1'',
                 ar_content = like_activity_dict, ar_is_local = False \<rparr>]\<rparr>)"
      by (simp add: store_activity_def o1 o2 o3)
  qed
  have h: "\<And>w. handle_activity lib w sample_env like_activity_dict sg rt host date dg
            = (store_activity (fst (process_like_activity w like_activity_dict))
                 like_activity_dict False,
               snd (process_like_activity w like_activity_dict))"
    using assms
    by (simp add: handle_activity_def a k p v ty Let_def split: prod.splits)
  define w1 where "w1 = fst (handle_activity lib sample_world sample_env like_activity_dict
                               sg rt host date dg)"
  have w1: "map vp_like_count (w_videos w1) = [1]"
     and v1: "query_video (w_videos w1) (Some (JStr ''https://local.example/videos/1''))
                \<noteq> Inr None"
     and a1: "w_activities w1 = [\<lparr> ar_activity_id = ''https://remote.example/likes/1'',
                 ar_content = like_activity_dict, ar_is_local = False \<rparr>]"
    by (simp_all add: w1_def h st process_like_activity_def t i query_video_def
        query_activity_def sample_world_def sample_video_def update_video_def Let_def)
  have r2: "process_like_activity w1 like_activity_dict =
       (w1, mk_response 200 ''Like already processed'')"
    using v1
    by (auto simp: process_like_activity_def t i query_activity_def a1 Let_def
        query_video_def split: option.splits sum.splits)
  have h2: "handle_activity lib w1 sample_env like_activity_dict sg rt host date dg
              = (w1, mk_response 200 ''Like already processed'')"
    by (simp add: h r2 st a1)
  show ?thesis
    unfolding w1_def [symmetric] h2 by (simp add: w1 a1)
qed

text \<open>
  Claim C2 at a Like whose object is a bare URL, submitted twice with a valid
  signature: \<open>store_activity\<close> raises on the string object and stores nothing, the
  second submission finds no record of the first, and the like counter ends at 2.
\<close>

theorem duplicate_like_counted_twice:
  assumes "verify_signature lib sg rt host date dg ''PEM''"
  shows "map vp_like_count (w_videos (fst (handle_activity lib
            (fst (handle_activity lib sample_world sample_env like_activity sg rt host date dg))
            sample_env like_activity sg rt host date dg))) = [2] \<and>
         w_activities (fst (handle_activity lib
            (fst (handle_activity lib sample_world sample_env like_activity sg rt host date dg))
            sample_env like_activity sg rt host date dg)) = [] \<and>
         snd (handle_activity lib
            (fst (handle_activity lib sample_world sample_env like_activity sg rt host date dg))
            sample_env like_activity sg rt host date dg) = mk_response 200 ''Like processed''"
proof -
  have v: "validate_activity_schema like_activity"
    by (simp add: validate_activity_schema_def like_activity_def is_jstr_def Let_def)
  have p: "parse_activity like_activity = Some like_activity"
    by (simp add: parse_activity_def like_activity_def valid_types_def)
  have st: "\<And>w. store_activity w like_activity False = w"
    by (simp add: store_activity_def object_field_def like_activity_def)
  have a: "jget like_activity ''actor'' = Inr (Some (JStr ''https://remote.example/users/bob''))"
    by (simp add: like_activity_def)
  have ty: "(case like_activity of JDict kvs \<Rightarrow> map_of kvs ''type'' | _ \<Rightarrow> None)
              = Some (JStr ''Like'')"
    by (simp add: like_activity_def)
  have k: "rq_fetched_key sample_env = Some ''PEM''"
    by (simp add: sample_env_def)
  have h: "\<And>w. handle_activity lib w sample_env like_activity sg rt host date dg
            = process_like_activity w like_activity"
    using assms
    by (simp add: handle_activity_def a k p v ty st Let_def split: prod.splits)
  define w1 where "w1 = fst (process_like_activity sample_world like_activity)"
  have w1: "w_videos w1 = [(sample_video\<lparr>vp_like_count := 1\<rparr>)
               \<lparr>vp_engagement_score := engagement (sample_video\<lparr>vp_like_count := 1\<rparr>)\<rparr>]"
     and a1: "w_activities w1 = []"
    by (simp_all add: w1_def process_like_activity_def like_activity_target like_activity_id
        query_video_def query_activity_def sample_world_def sample_video_def update_video_def
        Let_def)
  have r2: "process_like_activity w1 like_activity =
       (w1\<lparr>w_videos := [(sample_video\<lparr>vp_like_count := 2\<rparr>)
               \<lparr>vp_engagement_score := engagement (sample_video\<lparr>vp_like_count := 2\<rparr>)\<rparr>]\<rparr>,
        mk_response 200 ''Like processed'')"
    by (simp add: process_like_activity_def like_activity_target like_activity_id
        query_video_def query_activity_def w1 a1 sample_video_def update_video_def
        engagement_def Let_def)
  show ?thesis
    by (simp add: h w1_def [symmetric] r2 a1)
qed

theorem duplicate_like_witness:
  "w_activities (fst (handle_activity toy_lib
      (fst (handle_activity toy_lib sample_world sample_env like_activity good_header
              ''post /inbox'' ''local.example'' toy_date ''SHA-256=abc''))
      sample_env like_activity good_header
      ''post /inbox'' ''local.example'' toy_date ''SHA-256=abc'')) = [] \<and>
   map vp_like_count (w_videos (fst (handle_activity toy_lib
      (fst (handle_activity toy_lib sample_world sample_env like_activity good_header
              ''post /inbox'' ''local.example'' toy_date ''SHA-256=abc''))
      sample_env like_activity good_header
      ''post /inbox'' ''local.example'' toy_date ''SHA-256=abc''))) = [2]"
  using duplicate_like_counted_twice [OF good_header_verifies] by simp

lemma stream_chunks_length:
  "length f = d \<Longrightarrow> d \<le> max_size \<Longrightarrow> length (fst (stream_chunks d f cs)) \<le> max_size"
  by (induction cs arbitrary: d f) auto

lemma stream_chunks_overrun:
  "d \<le> max_size \<Longrightarrow>
   snd (stream_chunks d f cs) = (d + sum_list (map length cs) > max_size)"
  by (induction cs arbitrary: d f) auto

lemma download_written_le:
  "fst (snd (download_federated_video files path resp vobj)) \<le> max_size"
  using stream_chunks_length [of "[]" 0 "dl_chunks resp"]
  by (auto simp: download_federated_video_def split: sum.splits prod.splits option.splits)

lemma download_failure_cleans:
  "snd (snd (download_federated_video files path resp vobj)) = Inl e \<Longrightarrow>
   fst (download_federated_video files path resp vobj) path = None"
  by (auto simp: download_federated_video_def split: sum.splits prod.splits option.splits if_splits)

lemma download_declared_too_large:
  assumes "dl_connected resp" "dl_status_ok resp" "dl_content_length resp = Some cl"
    "py_int cl = Some n" "n > int max_size"
  shows "download_federated_video files path resp vobj = (files(path := None), 0, Inl SizeLimitError)"
proof -
  have "cl \<noteq> []" using assms(4) by (auto simp: py_int_def strip_chars_def)
  then show ?thesis using assms
    by (simp add: download_federated_video_def check_content_length_def)
qed

lemma download_overrun:
  assumes "dl_connected resp" "dl_status_ok resp"
    "check_content_length (dl_content_length resp) = Inr ()"
    "sum_list (map length (dl_chunks resp)) > max_size"
  shows "snd (snd (download_federated_video files path resp vobj)) = Inl SizeLimitError"
proof -
  have "snd (stream_chunks 0 [] (dl_chunks resp))"
    using assms(4) stream_chunks_overrun [of 0 "[]" "dl_chunks resp"] by simp
  then show ?thesis using assms(1-3)
    by (auto simp: download_federated_video_def split: prod.splits)
qed

lemma download_failure_reported:
  assumes "reaches_download w activity video_obj"
    and "download_federated_video (w_files w) (rq_file_path env) (rq_download env)
           (JDict video_obj) = (files', written, Inl e)"
  shows "process_federated_video w env activity video_obj =
           (w\<lparr>w_files := files', w_downloads := Suc (w_downloads w)\<rparr>,
            mk_response 500 ''Failed to download video'')"
  using assms
  by (auto simp: reaches_download_def process_federated_video_def Let_def
      split: sum.splits option.splits)

text \<open>
  Claim C6. A declared Content-Length over the cap fails the download with nothing
  written and no file left; the bytes written never exceed the cap; a stream that
  runs over the cap fails the download; after any failure no file is left at the
  download path; and \<open>_process_federated_video\<close> answers a failed download with a
  500 response, the state otherwise unchanged.
\<close>

theorem download_cap:
  "(dl_connected resp \<and> dl_status_ok resp \<and> dl_content_length resp = Some cl \<and>
      py_int cl = Some n \<and> n > int max_size \<longrightarrow>
        download_federated_video files path resp vobj
          = (files(path := None), 0, Inl SizeLimitError)) \<and>
   fst (snd (download_federated_video files path resp vobj)) \<le> max_size \<and>
   (dl_connected resp \<and> dl_status_ok resp \<and>
      check_content_length (dl_content_length resp) = Inr () \<and>
      sum_list (map length (dl_chunks resp)) > max_size \<longrightarrow>
        snd (snd (download_federated_video files path resp vobj)) = Inl SizeLimitError) \<and>
   (\<forall>e. snd (snd (download_federated_video files path resp vobj)) = Inl e \<longrightarrow>
        fst (download_federated_video files path resp vobj) path = None) \<and>
   (\<forall>w (env::request_env) activity video_obj files' written e.
      reaches_download w activity video_obj \<and>
      download_federated_video (w_files w) (rq_file_path env) (rq_download env)
           (JDict video_obj) = (files', written, Inl e) \<longrightarrow>
        process_federated_video w env activity video_obj =
           (w\<lparr>w_files := files', w_downloads := Suc (w_downloads w)\<rparr>,
            mk_response 500 ''Failed to download video'') \<and>
        files' (rq_file_path env) = None)"
proof (intro conjI impI allI)
  assume "dl_connected resp \<and> dl_status_ok resp \<and> dl_content_length resp = Some cl \<and>
      py_int cl = Some n \<and> n > int max_size"
  then show "download_federated_video files path resp vobj
          = (files(path := None), 0, Inl SizeLimitError)"
    by (intro download_declared_too_large) auto
next
  show "fst (snd (download_federated_video files path resp vobj)) \<le> max_size"
    by (rule download_written_le)
next
  assume "dl_connected resp \<and> dl_status_ok resp \<and>
      check_content_length (dl_content_length resp) = Inr () \<and>
      sum_list (map length (dl_chunks resp)) > max_size"
  then show "snd (snd (download_federated_video files path resp vobj)) = Inl SizeLimitError"
    by (intro download_overrun) auto
next
  fix e
  assume "snd (snd (download_federated_video files path resp vobj)) = Inl e"
  then show "fst (download_federated_video files path resp vobj) path = None"
    by (rule download_failure_cleans)
next
  fix w and env :: request_env and activity video_obj files' written e
  assume a: "reaches_download w activity video_obj \<and>
      download_federated_video (w_files w) (rq_file_path env) (rq_download env)
           (JDict video_obj) = (files', written, Inl e)"
  then show "process_federated_video w env activity video_obj =
           (w\<lparr>w_files := files', w_downloads := Suc (w_downloads w)\<rparr>,
            mk_response 500 ''Failed to download video'')"
    by (intro download_failure_reported) auto
  from a show "files' (rq_file_path env) = None"
    using download_failure_cleans [of "w_files w" "rq_file_path env" "rq_download env"
        "JDict video_obj" e] by simp
qed

lemma long_duration: "parse_duration (declared_duration long_video_obj) = Some 200"
  by (simp add: parse_duration_def declared_duration_def long_video_obj_def startswith_def
      endswith_def py_int_def strip_chars_def is_int_space_def int_max_str_digits_def py_unsigned_def
      is_digit_def digit_val_def Let_def)

theorem download_cap_witness:
  "download_federated_video (\<lambda>p. None) ''federated_1.mp4'' too_large_reply (JDict long_video_obj)
     = ((\<lambda>p. None)(''federated_1.mp4'' := None), 0, Inl SizeLimitError)"
proof -
  have i: "py_int ''600000000'' = Some 600000000"
    by (simp add: py_int_def strip_chars_def is_int_space_def int_max_str_digits_def py_unsigned_def
        is_digit_def digit_val_def)
  have m: "(600000000::int) > int max_size" by (simp add: max_size_def)
  from download_cap [of too_large_reply "''600000000''" 600000000 "\<lambda>p. None"
      "''federated_1.mp4''" "JDict long_video_obj"] i m
  show ?thesis by (simp add: too_large_reply_def)
qed

lemma metadata_duration:
  "extract_metadata video_obj = Inr md \<Longrightarrow>
   md_duration md = parse_duration (declared_duration video_obj)"
  by (auto simp: extract_metadata_def declared_duration_def Let_def split: sum.splits)

text \<open>
  Claim C5, as the code has it. For a video object whose declared duration parses to
  more than 180 seconds the state is unchanged: no download is started and no record
  is created. The answer is 400 when the activity is a dict, no video with the
  object's id exists and the metadata is well-typed; it is 200 when a video with that
  id already exists, because the existence check comes first; otherwise it is 500.
\<close>

theorem over_limit_video_rejected:
  assumes "parse_duration (declared_duration video_obj) = Some n" and "n > 180"
  shows "fst (process_federated_video w env activity video_obj) = w \<and>
         snd (process_federated_video w env activity video_obj) \<in>
           {mk_response 400 ''Duration exceeds limit'',
            mk_response 200 ''Video already processed'',
            mk_response 500 ''Failed to process video''} \<and>
         ((\<exists>actor md. jget activity ''actor'' = Inr actor \<and>
                      extract_metadata video_obj = Inr md) \<and>
          query_video (w_videos w) (map_of video_obj ''id'') = Inr None \<longrightarrow>
            snd (process_federated_video w env activity video_obj)
              = mk_response 400 ''Duration exceeds limit'') \<and>
         ((\<exists>actor v. jget activity ''actor'' = Inr actor \<and>
                     query_video (w_videos w) (map_of video_obj ''id'') = Inr (Some v)) \<longrightarrow>
            snd (process_federated_video w env activity video_obj)
              = mk_response 200 ''Video already processed'')"
proof -
  have ex: "\<And>md. extract_metadata video_obj = Inr md \<Longrightarrow> exceeds_limit (md_duration md)"
    using assms by (simp add: metadata_duration exceeds_limit_def)
  show ?thesis
    using ex
    by (auto simp: process_federated_video_def Let_def split: sum.splits option.splits)
qed

theorem over_limit_video_rejected_witness:
  "parse_duration (declared_duration long_video_obj) = Some 200 \<and>
   process_federated_video sample_world sample_env create_long_video long_video_obj
     = (sample_world, mk_response 400 ''Duration exceeds limit'')"
proof -
  have q: "query_video (w_videos sample_world) (map_of long_video_obj ''id'') = Inr None"
    by (simp add: query_video_def sample_world_def long_video_obj_def sample_video_def)
  have a: "jget create_long_video ''actor'' = Inr (Some (JStr ''https://remote.example/users/bob''))"
    by (simp add: create_long_video_def)
  have m: "\<exists>md. extract_metadata long_video_obj = Inr md"
    by (simp add: extract_metadata_def long_video_obj_def slice_to_def extract_tags_def Let_def)
  from over_limit_video_rejected [OF long_duration, of sample_world sample_env create_long_video]
    q a m long_duration
  show ?thesis by (auto simp: prod_eq_iff)
qed

lemma create_long_handled:
  "handle_activity toy_lib w sample_env create_long_video good_header
      ''post /inbox'' ''local.example'' toy_date ''SHA-256=abc''
   = (case process_federated_video w sample_env create_long_video long_video_obj of
        (w', r) \<Rightarrow> (store_activity w' create_long_video False, r))"
proof -
  have v: "validate_activity_schema create_long_video"
    by (simp add: validate_activity_schema_def create_long_video_def is_jstr_def Let_def)
  have p: "parse_activity create_long_video = Some create_long_video"
    by (simp add: parse_activity_def create_long_video_def valid_types_def)
  have a: "jget create_long_video ''actor'' = Inr (Some (JStr ''https://remote.example/users/bob''))"
    by (simp add: create_long_video_def)
  have ty: "(case create_long_video of JDict kvs \<Rightarrow> map_of kvs ''type'' | _ \<Rightarrow> None)
              = Some (JStr ''Create'')"
    by (simp add: create_long_video_def)
  have k: "rq_fetched_key sample_env = Some ''PEM''"
    by (simp add: sample_env_def)
  have c: "process_create_activity w sample_env create_long_video
             = process_federated_video w sample_env create_long_video long_video_obj"
    by (simp add: process_create_activity_def create_long_video_def)
       (simp add: long_video_obj_def)
  show ?thesis
    using good_header_verifies
    by (simp add: handle_activity_def a k p v ty c Let_def split: prod.splits)
qed

text \<open>
  The claim as written fails for a Create whose video is already on record: the
  pipeline answers 200, not 400.
\<close>

theorem duplicate_long_video_counterexample:
  "parse_duration (declared_duration long_video_obj) = Some 200 \<and>
   rs_status (snd (handle_activity toy_lib federated_world sample_env create_long_video
      good_header ''post /inbox'' ''local.example'' toy_date ''SHA-256=abc'')) = 200"
proof -
  have q: "query_video (w_videos federated_world) (map_of long_video_obj ''id'')
             = Inr (Some federated_video)"
    by (simp add: query_video_def federated_world_def long_video_obj_def federated_video_def
        sample_video_def)
  have a: "jget create_long_video ''actor'' = Inr (Some (JStr ''https://remote.example/users/bob''))"
    by (simp add: create_long_video_def)
  have "process_federated_video federated_world sample_env create_long_video long_video_obj
          = (federated_world, mk_response 200 ''Video already processed'')"
    by (simp add: process_federated_video_def q a Let_def)
  then show ?thesis
    by (simp add: create_long_handled long_duration mk_response_def)
qed

lemma parse_duration_Some:
  assumes "parse_duration j = Some n"
  shows "\<exists>body. j = JStr (''PT'' @ body @ ''S'') \<and> py_int body = Some n"
proof -
  from assms obtain s where j: "j = JStr s"
    by (cases j) (simp_all add: parse_duration_def)
  from assms j have st: "startswith s ''PT''" and en: "endswith (drop 2 s) ''S''"
    and pi: "py_int (butlast (drop 2 s)) = Some n"
    by (auto simp: parse_duration_def Let_def split: if_splits)
  from st have s1: "s = ''PT'' @ drop 2 s"
    by (metis append_take_drop_id startswith_def length_Cons list.size(3) numeral_2_eq_2)
  from en have "drop 2 s \<noteq> []" and "last (drop 2 s) = CHR ''S''"
    by (auto simp: endswith_def last_conv_nth nth_via_drop
        dest!: arg_cong [where f = hd] simp: hd_drop_conv_nth)
  then have s2: "drop 2 s = butlast (drop 2 s) @ ''S''"
    by (metis append_butlast_last_id)
  show ?thesis
    using j s1 s2 pi by (intro exI [of _ "butlast (drop 2 s)"]) (metis append_assoc)
qed

text \<open>
  Claim C9, as the code has it. \<open>_parse_duration\<close> returns an integer only for a
  string \<open>PT<body>S\<close> whose body \<open>int\<close> accepts; \<open>PT2M\<close>, \<open>PT1H\<close>, a bare
  number and an absent or empty value give \<open>None\<close>; and a video whose declared
  duration gives \<open>None\<close> is rejected for its duration neither before nor after the
  download.
\<close>

theorem parse_duration_form:
  "(parse_duration j = Some n \<longrightarrow>
      (\<exists>body. j = JStr (''PT'' @ body @ ''S'') \<and> py_int body = Some n)) \<and>
   parse_duration (JStr ''PT2M'') = None \<and>
   parse_duration (JStr ''PT1H'') = None \<and>
   parse_duration (JStr ''180'') = None \<and>
   parse_duration (JInt 200) = None \<and>
   parse_duration (JStr []) = None \<and>
   parse_duration JNull = None \<and>
   (parse_duration (declared_duration video_obj) = None \<longrightarrow>
      snd (process_federated_video w env activity video_obj)
        \<noteq> mk_response 400 ''Duration exceeds limit'' \<and>
      snd (snd (download_federated_video files path resp (JDict video_obj)))
        \<noteq> Inl DurationLimitError)"
proof (intro conjI impI)
  assume "parse_duration j = Some n"
  then show "\<exists>body. j = JStr (''PT'' @ body @ ''S'') \<and> py_int body = Some n"
    by (rule parse_duration_Some)
next
  show "parse_duration (JStr ''PT2M'') = None" "parse_duration (JStr ''PT1H'') = None"
    "parse_duration (JStr ''180'') = None" "parse_duration (JInt 200) = None"
    "parse_duration (JStr []) = None" "parse_duration JNull = None"
    by (simp_all add: parse_duration_def startswith_def endswith_def)
next
  assume n: "parse_duration (declared_duration video_obj) = None"
  have ex: "\<And>md. extract_metadata video_obj = Inr md \<Longrightarrow> \<not> exceeds_limit (md_duration md)"
    using n by (simp add: metadata_duration exceeds_limit_def)
  show "snd (process_federated_video w env activity video_obj)
        \<noteq> mk_response 400 ''Duration exceeds limit''"
    using ex
    by (auto simp: process_federated_video_def Let_def mk_response_def
        split: sum.splits option.splits prod.splits)
  show "snd (snd (download_federated_video files path resp (JDict video_obj)))
        \<noteq> Inl DurationLimitError"
    using n
    by (auto simp: download_federated_video_def declared_duration_def exceeds_limit_def
        check_content_length_def
        split: sum.splits option.splits prod.splits if_splits)
qed

theorem parse_duration_form_witness:
  "parse_duration (JStr ''PT 1_80 S'') = Some 180 \<and>
   py_int '' 1_80 '' = Some 180 \<and>
   parse_duration (declared_duration minutes_video_obj) = None \<and>
   snd (process_federated_video sample_world sample_env create_long_video minutes_video_obj)
     \<noteq> mk_response 400 ''Duration exceeds limit''"
proof -
  have p: "parse_duration (JStr ''PT 1_80 S'') = Some 180"
    by (simp add: parse_duration_def startswith_def endswith_def py_int_def
      strip_chars_def is_int_space_def int_max_str_digits_def py_unsigned_def is_digit_def digit_val_def Let_def)
  have d: "parse_duration (declared_duration minutes_video_obj) = None"
    by (simp add: parse_duration_def declared_duration_def minutes_video_obj_def
        startswith_def endswith_def)
  from parse_duration_form [of "JStr ''PT 1_80 S''" 180 minutes_video_obj sample_world
      sample_env create_long_video] p d
  show ?thesis by auto
qed

text \<open>
  The claim as written fails at \<open>PT+200S\<close>: \<open>int\<close> accepts the sign, so the
  result is 200 although the string is not of the form \<open>PT<digits>S\<close>.
\<close>

theorem plus_sign_counterexample:
  "parse_duration (JStr ''PT+200S'') = Some 200 \<and> \<not> exact_PT_digits_S ''PT+200S''"
  by (simp add: parse_duration_def startswith_def endswith_def py_int_def
      strip_chars_def is_int_space_def int_max_str_digits_def py_unsigned_def is_digit_def digit_val_def Let_def
      exact_PT_digits_S_def)

end
